theory Spec2Isabelle
  imports Complex_Main
begin

section \<open>Floating-point values\<close>

text \<open>
  The source computes with IEEE-754 doubles through NumPy. A finite double is modelled by
  the real number it denotes: rounding is not modelled, and zero has no sign (a zero
  divisor is taken as \<open>+0\<close>); the special values keep their IEEE rules. NumPy array
  arithmetic never raises: \<open>x / 0\<close> is an infinity and \<open>0 / 0\<close> is NaN. Division of two
  Python floats raises \<open>ZeroDivisionError\<close> instead, and a Python power that leaves the
  range raises \<open>OverflowError\<close>. The range of the doubles is modelled where the source
  divides by the radius (the prefactor of every DE branch) and in \<open>_de_psiprime\<close>, whose
  hyperbolic functions overflow inside the default tables; the kernels, the exponentials
  of the closed forms and the sums are computed without a range check.
\<close>

datatype fl = Fin real | PInf | NInf | NaN

datatype err = ZeroDivisionError | OverflowError | ValueError | IndexError

fun is_fin :: "fl \<Rightarrow> bool" where
  "is_fin (Fin r) = True"
| "is_fin PInf = False"
| "is_fin NInf = False"
| "is_fin NaN = False"

fun isnan :: "fl \<Rightarrow> bool" where
  "isnan NaN = True"
| "isnan (Fin r) = False"
| "isnan PInf = False"
| "isnan NInf = False"

fun fl_neg :: "fl \<Rightarrow> fl" where
  "fl_neg (Fin a) = Fin (- a)"
| "fl_neg PInf = NInf"
| "fl_neg NInf = PInf"
| "fl_neg NaN = NaN"

fun fl_add :: "fl \<Rightarrow> fl \<Rightarrow> fl" where
  "fl_add (Fin a) (Fin b) = Fin (a + b)"
| "fl_add (Fin a) PInf = PInf"
| "fl_add (Fin a) NInf = NInf"
| "fl_add PInf (Fin b) = PInf"
| "fl_add NInf (Fin b) = NInf"
| "fl_add PInf PInf = PInf"
| "fl_add NInf NInf = NInf"
| "fl_add PInf NInf = NaN"
| "fl_add NInf PInf = NaN"
| "fl_add NaN b = NaN"
| "fl_add a NaN = NaN"

definition inf_of_sign :: "real \<Rightarrow> fl" where
  "inf_of_sign a = (if a = 0 then NaN else if 0 < a then PInf else NInf)"

fun fl_mul :: "fl \<Rightarrow> fl \<Rightarrow> fl" where
  "fl_mul (Fin a) (Fin b) = Fin (a * b)"
| "fl_mul (Fin a) PInf = inf_of_sign a"
| "fl_mul (Fin a) NInf = inf_of_sign (- a)"
| "fl_mul PInf (Fin b) = inf_of_sign b"
| "fl_mul NInf (Fin b) = inf_of_sign (- b)"
| "fl_mul PInf PInf = PInf"
| "fl_mul NInf NInf = PInf"
| "fl_mul PInf NInf = NInf"
| "fl_mul NInf PInf = NInf"
| "fl_mul NaN b = NaN"
| "fl_mul a NaN = NaN"

text \<open>NumPy's true division; \<open>inf / 0\<close> keeps the sign of the infinity.\<close>

fun fl_div :: "fl \<Rightarrow> fl \<Rightarrow> fl" where
  "fl_div (Fin a) (Fin b) = (if b = 0 then inf_of_sign a else Fin (a / b))"
| "fl_div (Fin a) PInf = Fin 0"
| "fl_div (Fin a) NInf = Fin 0"
| "fl_div PInf (Fin b) = (if 0 \<le> b then PInf else NInf)"
| "fl_div NInf (Fin b) = (if 0 \<le> b then NInf else PInf)"
| "fl_div PInf PInf = NaN"
| "fl_div NInf NInf = NaN"
| "fl_div PInf NInf = NaN"
| "fl_div NInf PInf = NaN"
| "fl_div NaN b = NaN"
| "fl_div a NaN = NaN"

fun fl_exp :: "fl \<Rightarrow> fl" where
  "fl_exp (Fin a) = Fin (exp a)"
| "fl_exp PInf = PInf"
| "fl_exp NInf = Fin 0"
| "fl_exp NaN = NaN"

text \<open>\<open>v ** -1.5\<close>: a zero base gives \<open>inf\<close>, a negative base NaN.\<close>

fun fl_pow_m15 :: "fl \<Rightarrow> fl" where
  "fl_pow_m15 (Fin a) =
     (if 0 < a then Fin (a powr (- 3 / 2)) else if a = 0 then PInf else NaN)"
| "fl_pow_m15 PInf = Fin 0"
| "fl_pow_m15 NInf = Fin 0"
| "fl_pow_m15 NaN = NaN"

instantiation fl :: "{plus, minus, uminus, times, inverse}"
begin

definition plus_fl :: "fl \<Rightarrow> fl \<Rightarrow> fl" where
  "plus_fl a b = fl_add a b"

definition uminus_fl :: "fl \<Rightarrow> fl" where
  "uminus_fl a = fl_neg a"

definition minus_fl :: "fl \<Rightarrow> fl \<Rightarrow> fl" where
  "minus_fl a b = fl_add a (fl_neg b)"

definition times_fl :: "fl \<Rightarrow> fl \<Rightarrow> fl" where
  "times_fl a b = fl_mul a b"

definition divide_fl :: "fl \<Rightarrow> fl \<Rightarrow> fl" where
  "divide_fl a b = fl_div a b"

definition inverse_fl :: "fl \<Rightarrow> fl" where
  "inverse_fl a = fl_div (Fin 1) a"

instance ..

end

text \<open>The range of the doubles: the largest finite double and the smallest positive
  (subnormal) one. A real result beyond \<open>max_float\<close> becomes an infinity, one below half
  of \<open>min_float\<close> becomes zero.\<close>

definition max_float :: real where
  "max_float = (2 - 1 / 2 ^ 52) * 2 ^ 1023"

definition min_float :: real where
  "min_float = 1 / 2 ^ 1074"

definition flt :: "real \<Rightarrow> fl" where
  "flt r =
     (if max_float < r then PInf else if r < - max_float then NInf
      else if \<bar>r\<bar> \<le> min_float / 2 then Fin 0 else Fin r)"

fun in_range :: "fl \<Rightarrow> fl" where
  "in_range (Fin r) = flt r"
| "in_range PInf = PInf"
| "in_range NInf = NInf"
| "in_range NaN = NaN"

text \<open>Addition, multiplication and division with the range check on a finite result.\<close>

definition ck_add :: "fl \<Rightarrow> fl \<Rightarrow> fl" where
  "ck_add a b = in_range (a + b)"

definition ck_mul :: "fl \<Rightarrow> fl \<Rightarrow> fl" where
  "ck_mul a b = in_range (a * b)"

definition ck_div :: "fl \<Rightarrow> fl \<Rightarrow> fl" where
  "ck_div a b = in_range (a / b)"

text \<open>\<open>v ** 2.\<close> and \<open>v ** 3.\<close> agree with repeated multiplication on every value.\<close>

definition fl_pow2 :: "fl \<Rightarrow> fl" where
  "fl_pow2 v = v * v"

definition fl_pow3 :: "fl \<Rightarrow> fl" where
  "fl_pow3 v = v * v * v"

text \<open>\<open>numpy.sum\<close> adds every entry, so one NaN makes the sum NaN; \<open>numpy.nansum\<close>
  treats NaN entries (and only those) as zero.\<close>

fun np_sum :: "fl list \<Rightarrow> fl" where
  "np_sum [] = Fin 0"
| "np_sum (v # vs) = v + np_sum vs"

definition nansum :: "fl list \<Rightarrow> fl" where
  "nansum vs = np_sum (filter (\<lambda>v. \<not> isnan v) vs)"

text \<open>NumPy broadcasting of two one-dimensional operands, entry by entry: equal lengths
  pair up, a length-one operand is repeated, anything else raises \<open>ValueError\<close>.\<close>

definition broadcast :: "'a list \<Rightarrow> 'b list \<Rightarrow> err + ('a \<times> 'b) list" where
  "broadcast xs ys =
     (if length xs = length ys then Inr (zip xs ys)
      else if length ys = 1 then Inr (map (\<lambda>x. (x, hd ys)) xs)
      else if length xs = 1 then Inr (map (\<lambda>y. (hd xs, y)) ys)
      else Inl ValueError)"

section \<open>Queries and results\<close>

text \<open>
  A query gives the cylindrical radius \<open>R\<close> and the height \<open>z\<close>. The model covers the
  finite inputs of the public contract: two floats, where \<open>R\<close> is a Python float or a
  \<open>numpy.float64\<close> (both pass \<open>isinstance(R, float)\<close>; only the Python float raises on
  division by zero), a one-dimensional array \<open>R\<close> with a float \<open>z\<close>, and two
  one-dimensional arrays of one length, given entry by entry.
\<close>

datatype coords =
    PyFloats real real
  | NpFloats real real
  | ArrayFloat "real list" real
  | Arrays "(real \<times> real) list"

datatype result = Float64 fl | Ndarray "fl list"

section \<open>The model state\<close>

text \<open>
  The asymptotic fallback is an external collaborator: an object that evaluates the
  potential, the two forces and the three second derivatives at a point.
\<close>

record kepler =
  kp_call :: "real \<Rightarrow> real \<Rightarrow> fl"
  kp_Rforce :: "real \<Rightarrow> real \<Rightarrow> fl"
  kp_zforce :: "real \<Rightarrow> real \<Rightarrow> fl"
  kp_R2deriv :: "real \<Rightarrow> real \<Rightarrow> fl"
  kp_z2deriv :: "real \<Rightarrow> real \<Rightarrow> fl"
  kp_Rzderiv :: "real \<Rightarrow> real \<Rightarrow> fl"

text \<open>Modelled from the spec: \<open>KeplerPotential\<close> lives in
  \<open>PowerSphericalPotential.py\<close>, which is not among the sources. The spec describes it
  as a point-mass potential whose mass is the disk's total mass; a point mass \<open>M\<close> has
  the potential \<open>- M / r\<close> with \<open>r\<^sup>2 = R\<^sup>2 + z\<^sup>2\<close>, and the other fields are its
  derivatives.\<close>

definition KeplerPotential :: "real \<Rightarrow> kepler" where
  "KeplerPotential M =
     \<lparr> kp_call = (\<lambda>R z. Fin (- M) / Fin (sqrt (R\<^sup>2 + z\<^sup>2))),
       kp_Rforce = (\<lambda>R z. Fin (- M * R) / Fin (sqrt (R\<^sup>2 + z\<^sup>2) ^ 3)),
       kp_zforce = (\<lambda>R z. Fin (- M * z) / Fin (sqrt (R\<^sup>2 + z\<^sup>2) ^ 3)),
       kp_R2deriv = (\<lambda>R z. Fin (M * (z\<^sup>2 - 2 * R\<^sup>2)) / Fin (sqrt (R\<^sup>2 + z\<^sup>2) ^ 5)),
       kp_z2deriv = (\<lambda>R z. Fin (M * (R\<^sup>2 - 2 * z\<^sup>2)) / Fin (sqrt (R\<^sup>2 + z\<^sup>2) ^ 5)),
       kp_Rzderiv = (\<lambda>R z. Fin (- 3 * M * R * z) / Fin (sqrt (R\<^sup>2 + z\<^sup>2) ^ 5)) \<rparr>"

text \<open>
  The attributes of a \<open>DoubleExponentialDiskPotential\<close> that the evaluation methods
  read, under the source's names without the leading underscore. Scalars and node tables
  hold finite floats; a DE weight is a quotient computed by NumPy and is kept as an
  \<open>fl\<close>.
\<close>

record dedp =
  kmaxFac :: real
  glorder :: nat
  hr :: real
  hz :: real
  alpha :: real
  beta :: real
  gamma :: real
  glx :: "real list"
  glw :: "real list"
  nzeros :: nat
  j0zeros :: "real list"
  dj0zeros :: "real list"
  j1zeros :: "real list"
  dj1zeros :: "real list"
  j2zeros :: "real list"
  dj2zeros :: "real list"
  de :: bool
  de_h :: real
  de_n :: nat
  de_j0zeros :: "real list"
  de_j1zeros :: "real list"
  de_j0_xs :: "real list"
  de_j0_weights :: "fl list"
  de_j1_xs :: "real list"
  de_j1_weights :: "fl list"
  kp :: kepler

text \<open>The functions of \<open>scipy.special\<close> and \<open>numpy.polynomial.legendre\<close> that the
  source calls are parameters of the model.\<close>

record special =
  leggauss :: "nat \<Rightarrow> real list \<times> real list"
  jn_zeros :: "nat \<Rightarrow> nat \<Rightarrow> real list"
  j0 :: "real \<Rightarrow> real"
  j1 :: "real \<Rightarrow> real"
  jv :: "nat \<Rightarrow> real \<Rightarrow> real"
  jn :: "nat \<Rightarrow> real \<Rightarrow> real"

definition de_psi :: "real \<Rightarrow> real" where
  "de_psi t = t * tanh (pi / 2 * sinh t)"

text \<open>\<open>_de_psiprime\<close> with the range of the doubles: for an argument beyond about 6.1
  both hyperbolic functions of \<open>pi * sinh t\<close> overflow and the quotient is
  \<open>inf / inf\<close>, a NaN.\<close>

definition de_psiprime :: "real \<Rightarrow> fl" where
  "de_psiprime t =
     ck_div (ck_add (flt (sinh (pi * sinh t))) (flt (pi * t * cosh t)))
            (ck_add (flt (cosh (pi * sinh t))) (Fin 1))"

text \<open>\<open>zs - numpy.roll(zs, 1)\<close> with entry 0 reset to \<open>zs[0]\<close>.\<close>

fun diffs :: "real list \<Rightarrow> real list" where
  "diffs [] = []"
| "diffs (a # as) = a # map (\<lambda>(p, q). q - p) (zip (a # as) as)"

definition de_xs :: "real \<Rightarrow> real list \<Rightarrow> real list" where
  "de_xs h ts = map (\<lambda>t. pi / h * de_psi (h * t)) ts"

definition de_weights ::
  "(real \<Rightarrow> real) \<Rightarrow> (real \<Rightarrow> real) \<Rightarrow> real \<Rightarrow> real list \<Rightarrow> fl list" where
  "de_weights jnext jord h ts =
     map (\<lambda>t. Fin 2 / Fin (pi * t * (jnext (pi * t))\<^sup>2)
              * Fin (jord (pi / h * de_psi (h * t)))
              * de_psiprime (h * t)) ts"

text \<open>\<open>__init__\<close> with \<open>normalize=False\<close>. The three divisions of Python floats can
  raise; the array arithmetic cannot.\<close>

definition init ::
  "special \<Rightarrow> real \<Rightarrow> real \<Rightarrow> real \<Rightarrow> nat \<Rightarrow> bool \<Rightarrow> real \<Rightarrow> nat \<Rightarrow> err + dedp" where
  "init sp hr' hz' kmaxFac' glorder' de' de_h' de_n' =
     (if hr' = 0 \<or> hz' = 0 \<or> de_h' = 0 then Inl ZeroDivisionError
      else
        let a = 1 / hr'; b = 1 / hz';
            z0 = 0 # jn_zeros sp 0 100;
            z1 = 0 # jn_zeros sp 1 100;
            z2 = 0 # jn_zeros sp 2 100;
            t0 = map (\<lambda>j. j / pi) (jn_zeros sp 0 de_n');
            t1 = map (\<lambda>j. j / pi) (jn_zeros sp 1 de_n')
        in Inr \<lparr> kmaxFac = kmaxFac', glorder = glorder', hr = hr', hz = hz',
                 alpha = a, beta = b, gamma = a / b,
                 glx = fst (leggauss sp glorder'), glw = snd (leggauss sp glorder'),
                 nzeros = 100,
                 j0zeros = z0, dj0zeros = diffs z0,
                 j1zeros = z1, dj1zeros = diffs z1,
                 j2zeros = z2, dj2zeros = diffs z2,
                 de = de', de_h = de_h', de_n = de_n',
                 de_j0zeros = t0, de_j1zeros = t1,
                 de_j0_xs = de_xs de_h' t0,
                 de_j0_weights = de_weights (j1 sp) (j0 sp) de_h' t0,
                 de_j1_xs = de_xs de_h' t1,
                 de_j1_weights = de_weights (jv sp 2) (j1 sp) de_h' t1,
                 kp = KeplerPotential (4 * pi / a\<^sup>2 / b) \<rparr>)"

section \<open>Closed-form density and surface density\<close>

definition dens1 :: "dedp \<Rightarrow> real \<Rightarrow> real \<Rightarrow> fl" where
  "dens1 s R z = fl_exp (Fin (- alpha s * R - beta s * \<bar>z\<bar>))"

definition surfdens1 :: "dedp \<Rightarrow> real \<Rightarrow> real \<Rightarrow> fl" where
  "surfdens1 s R z =
     Fin 2 * fl_exp (Fin (- alpha s * R)) / Fin (beta s)
       * (Fin 1 - fl_exp (Fin (- beta s * \<bar>z\<bar>)))"

text \<open>A vectorised NumPy expression in \<open>R\<close> and \<open>z\<close> alone is the scalar expression at
  every entry.\<close>

definition elementwise :: "(real \<Rightarrow> real \<Rightarrow> fl) \<Rightarrow> coords \<Rightarrow> err + result" where
  "elementwise f q =
     (case q of
        PyFloats R z \<Rightarrow> Inr (Float64 (f R z))
      | NpFloats R z \<Rightarrow> Inr (Float64 (f R z))
      | ArrayFloat Rs z \<Rightarrow> Inr (Ndarray (map (\<lambda>R. f R z) Rs))
      | Arrays Rzs \<Rightarrow> Inr (Ndarray (map (\<lambda>(R, z). f R z) Rzs)))"

definition dens :: "dedp \<Rightarrow> coords \<Rightarrow> err + result" where
  "dens s q = elementwise (dens1 s) q"

definition surfdens :: "dedp \<Rightarrow> coords \<Rightarrow> err + result" where
  "surfdens s q = elementwise (surfdens1 s) q"

section \<open>The double-exponential (Ogata) evaluator\<close>

definition bnd :: "err + 'a \<Rightarrow> ('a \<Rightarrow> err + 'b) \<Rightarrow> err + 'b" where
  "bnd m f = (case m of Inl e \<Rightarrow> Inl e | Inr v \<Rightarrow> f v)"

text \<open>An arithmetic operation on two one-dimensional arrays.\<close>

definition bop :: "(fl \<Rightarrow> fl \<Rightarrow> fl) \<Rightarrow> fl list \<Rightarrow> fl list \<Rightarrow> err + fl list" where
  "bop f vs ws = bnd (broadcast vs ws) (\<lambda>ps. Inr (map (\<lambda>(v, w). f v w) ps))"

text \<open>The five kernels \<open>fun\<close> of the DE branches, at one node \<open>x\<close> and one point
  \<open>(R, z)\<close>, with the source's operator precedence. \<open>_evaluate\<close> and \<open>_R2deriv\<close>
  differ by the leading factor only.\<close>

definition evaluate_fun :: "dedp \<Rightarrow> real \<Rightarrow> real \<Rightarrow> real \<Rightarrow> fl" where
  "evaluate_fun s x R z =
     fl_pow_m15 (Fin ((alpha s)\<^sup>2) + fl_pow2 (Fin x / Fin R))
       * (Fin (beta s) * fl_exp (Fin (- x) / Fin R * Fin \<bar>z\<bar>)
          - Fin x / Fin R * fl_exp (Fin (- beta s * \<bar>z\<bar>)))
       / (Fin ((beta s)\<^sup>2) - fl_pow2 (Fin x / Fin R))"

definition Rforce_fun :: "dedp \<Rightarrow> real \<Rightarrow> real \<Rightarrow> real \<Rightarrow> fl" where
  "Rforce_fun s x R z =
     Fin x * fl_pow_m15 (Fin ((alpha s)\<^sup>2) + fl_pow2 (Fin x / Fin R))
       * (Fin (beta s) * fl_exp (Fin (- x) / Fin R * Fin \<bar>z\<bar>)
          - Fin x / Fin R * fl_exp (Fin (- beta s * \<bar>z\<bar>)))
       / (Fin ((beta s)\<^sup>2) - fl_pow2 (Fin x / Fin R))"

definition zforce_fun :: "dedp \<Rightarrow> real \<Rightarrow> real \<Rightarrow> real \<Rightarrow> fl" where
  "zforce_fun s x R z =
     fl_pow_m15 (Fin ((alpha s)\<^sup>2) + fl_pow2 (Fin x / Fin R)) * Fin x / Fin R
       * (fl_exp (Fin (- x) / Fin R * Fin \<bar>z\<bar>) - fl_exp (Fin (- beta s * \<bar>z\<bar>)))
       / (Fin ((beta s)\<^sup>2) - fl_pow2 (Fin x / Fin R))"

definition R2deriv_fun :: "dedp \<Rightarrow> real \<Rightarrow> real \<Rightarrow> real \<Rightarrow> fl" where
  "R2deriv_fun s x R z =
     Fin (x\<^sup>2) * fl_pow_m15 (Fin ((alpha s)\<^sup>2) + fl_pow2 (Fin x / Fin R))
       * (Fin (beta s) * fl_exp (Fin (- x) / Fin R * Fin \<bar>z\<bar>)
          - Fin x / Fin R * fl_exp (Fin (- beta s * \<bar>z\<bar>)))
       / (Fin ((beta s)\<^sup>2) - fl_pow2 (Fin x / Fin R))"

definition z2deriv_fun :: "dedp \<Rightarrow> real \<Rightarrow> real \<Rightarrow> real \<Rightarrow> fl" where
  "z2deriv_fun s x R z =
     fl_pow_m15 (Fin ((alpha s)\<^sup>2) + fl_pow2 (Fin x / Fin R)) * Fin x / Fin R
       * (Fin x / Fin R * fl_exp (Fin (- x) / Fin R * Fin \<bar>z\<bar>)
          - Fin (beta s) * fl_exp (Fin (- beta s * \<bar>z\<bar>)))
       / (Fin ((beta s)\<^sup>2) - fl_pow2 (Fin x / Fin R))"

definition Rzderiv_fun :: "dedp \<Rightarrow> real \<Rightarrow> real \<Rightarrow> real \<Rightarrow> fl" where
  "Rzderiv_fun s x R z =
     fl_pow_m15 (Fin ((alpha s)\<^sup>2) + fl_pow2 (Fin x / Fin R)) * fl_pow2 (Fin x / Fin R)
       * (fl_exp (Fin (- x) / Fin R * Fin \<bar>z\<bar>) - fl_exp (Fin (- beta s * \<bar>z\<bar>)))
       / (Fin ((beta s)\<^sup>2) - fl_pow2 (Fin x / Fin R))"

text \<open>The points of a query, as the arrays \<open>R\<close> and \<open>z\<close> pair up after a float \<open>z\<close>
  is broadcast.\<close>

fun points :: "coords \<Rightarrow> (real \<times> real) list" where
  "points (PyFloats R z) = [(R, z)]"
| "points (NpFloats R z) = [(R, z)]"
| "points (ArrayFloat Rs z) = map (\<lambda>R. (R, z)) Rs"
| "points (Arrays Rzs) = Rzs"

fun floatIn :: "coords \<Rightarrow> bool" where
  "floatIn (PyFloats R z) = True"
| "floatIn (NpFloats R z) = True"
| "floatIn (ArrayFloat Rs z) = False"
| "floatIn (Arrays Rzs) = False"

text \<open>\<open>out[0]\<close> for a float query, the array otherwise.\<close>

definition shaped :: "coords \<Rightarrow> fl list \<Rightarrow> result" where
  "shaped q out = (if floatIn q then Float64 (hd out) else Ndarray out)"

text \<open>The constants \<open>-4.*numpy.pi*self._alpha\<close>, \<open>4.*numpy.pi*self._alpha\<close> and
  \<open>-4.*numpy.pi*self._alpha*self._beta\<close>, multiplied from the left.\<close>

definition c_alpha :: "dedp \<Rightarrow> fl" where
  "c_alpha s = ck_mul (Fin (- 4 * pi)) (Fin (alpha s))"

definition c_alpha_pos :: "dedp \<Rightarrow> fl" where
  "c_alpha_pos s = ck_mul (Fin (4 * pi)) (Fin (alpha s))"

definition c_alpha_beta :: "dedp \<Rightarrow> fl" where
  "c_alpha_beta s = ck_mul (c_alpha s) (Fin (beta s))"

text \<open>The DE branch of \<open>_evaluate\<close>: \<open>R[:,numpy.newaxis]\<close> puts the points along the
  rows and the nodes along the columns, and \<open>nansum(..., axis=1)\<close> sums each row.\<close>

definition evaluate_de :: "dedp \<Rightarrow> coords \<Rightarrow> err + result" where
  "evaluate_de s q =
     bnd (broadcast (de_j0_xs s) (de_j0_weights s)) (\<lambda>xw.
       Inr (shaped q (map (\<lambda>(R, z).
              ck_div (c_alpha s) (Fin R)
                * nansum (map (\<lambda>(x, w). evaluate_fun s x R z * w) xw))
            (points q))))"

text \<open>The other DE branches apply \<open>fun\<close> to the node table against \<open>R\<close> and \<open>z\<close> as
  they come: a float pairs with every node, an array is broadcast against the table, and
  \<open>nansum\<close> without an axis adds every entry.\<close>

definition fun_on ::
  "(real \<Rightarrow> real \<Rightarrow> real \<Rightarrow> fl) \<Rightarrow> real list \<Rightarrow> coords \<Rightarrow> err + fl list" where
  "fun_on f xs q =
     (case q of
        PyFloats R z \<Rightarrow> Inr (map (\<lambda>x. f x R z) xs)
      | NpFloats R z \<Rightarrow> Inr (map (\<lambda>x. f x R z) xs)
      | ArrayFloat Rs z \<Rightarrow>
          bnd (broadcast xs Rs) (\<lambda>ps. Inr (map (\<lambda>(x, R). f x R z) ps))
      | Arrays Rzs \<Rightarrow>
          bnd (broadcast xs Rzs) (\<lambda>ps. Inr (map (\<lambda>(x, (R, z)). f x R z) ps)))"

definition weighted_nansum ::
  "(real \<Rightarrow> real \<Rightarrow> real \<Rightarrow> fl) \<Rightarrow> real list \<Rightarrow> fl list \<Rightarrow> coords \<Rightarrow> err + fl" where
  "weighted_nansum f xs ws q =
     bnd (fun_on f xs q) (\<lambda>vs. bnd (bop (*) vs ws) (\<lambda>ts. Inr (nansum ts)))"

text \<open>The prefactor \<open>c / R ** p\<close> (\<open>c / R\<close> when \<open>p = 1\<close>), where \<open>c\<close> is a product of
  Python floats. For a Python float \<open>R\<close> the power is Python's: it raises
  \<open>OverflowError\<close> beyond the range and gives zero below it, and the division raises
  \<open>ZeroDivisionError\<close> on a zero divisor and gives an infinity when the quotient leaves
  the range. For a \<open>numpy.float64\<close> or an array, power and division are NumPy's and
  never raise.\<close>

definition py_pow :: "real \<Rightarrow> nat \<Rightarrow> err + real" where
  "py_pow R p =
     (if p = 1 then Inr R
      else if max_float < \<bar>R ^ p\<bar> then Inl OverflowError
      else if \<bar>R ^ p\<bar> \<le> min_float / 2 then Inr 0 else Inr (R ^ p))"

definition np_pow :: "real \<Rightarrow> nat \<Rightarrow> fl" where
  "np_pow R p = (if p = 1 then Fin R else flt (R ^ p))"

definition prefactor :: "fl \<Rightarrow> nat \<Rightarrow> coords \<Rightarrow> err + result" where
  "prefactor c p q =
     (case q of
        PyFloats R z \<Rightarrow>
          bnd (py_pow R p) (\<lambda>d.
            if d = 0 then Inl ZeroDivisionError else Inr (Float64 (ck_div c (Fin d))))
      | NpFloats R z \<Rightarrow> Inr (Float64 (ck_div c (np_pow R p)))
      | ArrayFloat Rs z \<Rightarrow> Inr (Ndarray (map (\<lambda>R. ck_div c (np_pow R p)) Rs))
      | Arrays Rzs \<Rightarrow> Inr (Ndarray (map (\<lambda>(R, z). ck_div c (np_pow R p)) Rzs)))"

fun scale :: "result \<Rightarrow> fl \<Rightarrow> result" where
  "scale (Float64 v) k = Float64 (v * k)"
| "scale (Ndarray vs) k = Ndarray (map (\<lambda>v. v * k) vs)"

fun negate :: "result \<Rightarrow> result" where
  "negate (Float64 v) = Float64 (- v)"
| "negate (Ndarray vs) = Ndarray (map uminus vs)"

text \<open>\<open>if z > 0.\<close> (or \<open>z >= 0.\<close>): the truth value of an array is defined for one
  entry only.\<close>

definition z_test :: "(real \<Rightarrow> bool) \<Rightarrow> coords \<Rightarrow> err + bool" where
  "z_test P q =
     (case q of
        PyFloats R z \<Rightarrow> Inr (P z)
      | NpFloats R z \<Rightarrow> Inr (P z)
      | ArrayFloat Rs z \<Rightarrow> Inr (P z)
      | Arrays Rzs \<Rightarrow> (case Rzs of [(R, z)] \<Rightarrow> Inr (P z) | _ \<Rightarrow> Inl ValueError))"

definition Rforce_de :: "dedp \<Rightarrow> coords \<Rightarrow> err + result" where
  "Rforce_de s q =
     bnd (prefactor (c_alpha s) 2 q) (\<lambda>c.
       bnd (weighted_nansum (Rforce_fun s) (de_j1_xs s) (de_j1_weights s) q) (\<lambda>v.
         Inr (scale c v)))"

definition zforce_de :: "dedp \<Rightarrow> coords \<Rightarrow> err + result" where
  "zforce_de s q =
     bnd (prefactor (c_alpha_beta s) 1 q) (\<lambda>c.
       bnd (weighted_nansum (zforce_fun s) (de_j0_xs s) (de_j0_weights s) q) (\<lambda>v.
         bnd (z_test (\<lambda>z. 0 < z) q) (\<lambda>pos.
           Inr (if pos then scale c v else negate (scale c v)))))"

definition R2deriv_de :: "dedp \<Rightarrow> coords \<Rightarrow> err + result" where
  "R2deriv_de s q =
     bnd (prefactor (c_alpha_pos s) 3 q) (\<lambda>c.
       bnd (fun_on (R2deriv_fun s) (de_j0_xs s) q) (\<lambda>v0.
         bnd (bop (*) v0 (de_j0_weights s)) (\<lambda>t0.
           bnd (fun_on (R2deriv_fun s) (de_j1_xs s) q) (\<lambda>v1.
             bnd (bop (/) v1 (map Fin (de_j1_xs s))) (\<lambda>u1.
               bnd (bop (*) u1 (de_j1_weights s)) (\<lambda>t1.
                 bnd (bop (-) t0 t1) (\<lambda>d.
                   Inr (scale c (nansum d)))))))))"

definition z2deriv_de :: "dedp \<Rightarrow> coords \<Rightarrow> err + result" where
  "z2deriv_de s q =
     bnd (prefactor (c_alpha_beta s) 1 q) (\<lambda>c.
       bnd (weighted_nansum (z2deriv_fun s) (de_j0_xs s) (de_j0_weights s) q) (\<lambda>v.
         Inr (scale c v)))"

definition Rzderiv_de :: "dedp \<Rightarrow> coords \<Rightarrow> err + result" where
  "Rzderiv_de s q =
     bnd (prefactor (c_alpha_beta s) 1 q) (\<lambda>c.
       bnd (weighted_nansum (Rzderiv_fun s) (de_j1_xs s) (de_j1_weights s) q) (\<lambda>v.
         bnd (z_test (\<lambda>z. 0 < z) q) (\<lambda>pos.
           Inr (if pos then scale c v else negate (scale c v)))))"

section \<open>The legacy Gauss--Bessel evaluator\<close>

text \<open>\<open>numpy.argmin\<close>: the first index of the least entry; an empty array raises
  \<open>ValueError\<close>.\<close>

fun argmin_from :: "real \<Rightarrow> nat \<Rightarrow> nat \<Rightarrow> real list \<Rightarrow> nat" where
  "argmin_from best bi i [] = bi"
| "argmin_from best bi i (v # vs) =
     (if v < best then argmin_from v i (Suc i) vs else argmin_from best bi (Suc i) vs)"

definition argmin :: "real list \<Rightarrow> err + nat" where
  "argmin vs = (case vs of [] \<Rightarrow> Inl ValueError | v # ws \<Rightarrow> Inr (argmin_from v 0 1 ws))"

definition item :: "'a list \<Rightarrow> nat \<Rightarrow> err + 'a" where
  "item vs i = (if i < length vs then Inr (vs ! i) else Inl IndexError)"

text \<open>A list comprehension whose entries can raise stops at the first error.\<close>

fun collect :: "(err + 'a) list \<Rightarrow> err + 'a list" where
  "collect [] = Inr []"
| "collect (m # ms) = bnd m (\<lambda>v. bnd (collect ms) (\<lambda>vs. Inr (v # vs)))"

text \<open>The Gauss--Legendre nodes and weights on the first \<open>n\<close> intervals between
  consecutive zeros: \<open>0.5*(glx+1.)*dzeros[ii+1] + zeros[ii]\<close> and \<open>glw*dzeros[ii+1]\<close>
  for \<open>ii\<close> in \<open>range(n)\<close>, flattened.\<close>

definition gl_ks :: "dedp \<Rightarrow> real list \<Rightarrow> real list \<Rightarrow> nat \<Rightarrow> err + real list" where
  "gl_ks s zeros dzeros n =
     bnd (collect (map (\<lambda>ii. bnd (item dzeros (ii + 1)) (\<lambda>d. bnd (item zeros ii) (\<lambda>z0.
                          Inr (map (\<lambda>g. 0.5 * (g + 1) * d + z0) (glx s))))) [0..<n]))
       (\<lambda>rows. Inr (concat rows))"

definition gl_weights :: "dedp \<Rightarrow> real list \<Rightarrow> nat \<Rightarrow> err + real list" where
  "gl_weights s dzeros n =
     bnd (collect (map (\<lambda>ii. bnd (item dzeros (ii + 1)) (\<lambda>d.
                          Inr (map (\<lambda>w. w * d) (glw s)))) [0..<n]))
       (\<lambda>rows. Inr (concat rows))"

text \<open>The pieces of one truncated quadrature: the index of the zero closest to
  \<open>kmax*R4max\<close>, and \<open>numpy.sum(weights*evalInt)\<close> for an integrand \<open>f\<close> of the
  wavenumber.\<close>

definition R4max :: "real \<Rightarrow> real" where
  "R4max R = (if R < 1 then 1 else R)"

definition maxzeroIndx :: "real list \<Rightarrow> real \<Rightarrow> real \<Rightarrow> err + nat" where
  "maxzeroIndx zeros kmax R = argmin (map (\<lambda>j. (j - kmax * R4max R)\<^sup>2) zeros)"

definition weighted_sum :: "real list \<Rightarrow> real list \<Rightarrow> (real \<Rightarrow> fl) \<Rightarrow> err + fl" where
  "weighted_sum weights ks f =
     bnd (bop (*) (map Fin weights) (map f ks)) (\<lambda>ts. Inr (np_sum ts))"

definition gl_sum ::
  "dedp \<Rightarrow> real list \<Rightarrow> real list \<Rightarrow> real \<Rightarrow> real \<Rightarrow> (real \<Rightarrow> fl) \<Rightarrow> err + fl" where
  "gl_sum s zeros dzeros kmax R f =
     bnd (maxzeroIndx zeros kmax R) (\<lambda>n.
       bnd (gl_ks s zeros dzeros n) (\<lambda>ks.
         bnd (gl_weights s dzeros n) (\<lambda>weights.
           weighted_sum weights ks f)))"

text \<open>The integrands \<open>evalInt\<close> of the six legacy branches at one wavenumber \<open>k\<close>.\<close>

definition evaluate_evalInt :: "special \<Rightarrow> dedp \<Rightarrow> real \<Rightarrow> real \<Rightarrow> real \<Rightarrow> fl" where
  "evaluate_evalInt sp s R z k =
     Fin (jn sp 0 (k * R)) * fl_pow_m15 (Fin ((alpha s)\<^sup>2 + k\<^sup>2))
       * Fin (beta s * exp (- k * \<bar>z\<bar>) - k * exp (- beta s * \<bar>z\<bar>))
       / Fin ((beta s)\<^sup>2 - k\<^sup>2)"

definition Rforce_evalInt :: "special \<Rightarrow> dedp \<Rightarrow> real \<Rightarrow> real \<Rightarrow> real \<Rightarrow> fl" where
  "Rforce_evalInt sp s R z k =
     Fin (k * jn sp 1 (k * R)) * fl_pow_m15 (Fin ((alpha s)\<^sup>2 + k\<^sup>2))
       * Fin (beta s * exp (- k * \<bar>z\<bar>) - k * exp (- beta s * \<bar>z\<bar>))
       / Fin ((beta s)\<^sup>2 - k\<^sup>2)"

definition zforce_evalInt :: "special \<Rightarrow> dedp \<Rightarrow> real \<Rightarrow> real \<Rightarrow> real \<Rightarrow> fl" where
  "zforce_evalInt sp s R z k =
     Fin (k * jn sp 0 (k * R)) * fl_pow_m15 (Fin ((alpha s)\<^sup>2 + k\<^sup>2))
       * Fin (exp (- k * \<bar>z\<bar>) - exp (- beta s * \<bar>z\<bar>))
       / Fin ((beta s)\<^sup>2 - k\<^sup>2)"

definition R2deriv_evalInt :: "special \<Rightarrow> dedp \<Rightarrow> nat \<Rightarrow> real \<Rightarrow> real \<Rightarrow> real \<Rightarrow> fl" where
  "R2deriv_evalInt sp s order R z k =
     Fin (k\<^sup>2 * jn sp order (k * R)) * fl_pow_m15 (Fin ((alpha s)\<^sup>2 + k\<^sup>2))
       * Fin (beta s * exp (- k * \<bar>z\<bar>) - k * exp (- beta s * \<bar>z\<bar>))
       / Fin ((beta s)\<^sup>2 - k\<^sup>2)"

definition z2deriv_evalInt :: "special \<Rightarrow> dedp \<Rightarrow> real \<Rightarrow> real \<Rightarrow> real \<Rightarrow> fl" where
  "z2deriv_evalInt sp s R z k =
     Fin (k * jn sp 0 (k * R)) * fl_pow_m15 (Fin ((alpha s)\<^sup>2 + k\<^sup>2))
       * Fin (k * exp (- k * \<bar>z\<bar>) - beta s * exp (- beta s * \<bar>z\<bar>))
       / Fin ((beta s)\<^sup>2 - k\<^sup>2)"

definition Rzderiv_evalInt :: "special \<Rightarrow> dedp \<Rightarrow> real \<Rightarrow> real \<Rightarrow> real \<Rightarrow> fl" where
  "Rzderiv_evalInt sp s R z k =
     Fin (k\<^sup>2 * jn sp 1 (k * R)) * fl_pow_m15 (Fin ((alpha s)\<^sup>2 + k\<^sup>2))
       * Fin (exp (- k * \<bar>z\<bar>) - exp (- beta s * \<bar>z\<bar>))
       / Fin ((beta s)\<^sup>2 - k\<^sup>2)"

text \<open>The legacy branches at one point. \<open>_evaluate\<close> and \<open>_Rzderiv\<close> hand the point to
  the fallback when \<open>R > 6\<close>; the other four also when \<open>R > 16*hr\<close>. (\<open>_Rforce\<close>
  asks \<open>hasattr(self,'_kp')\<close> too, which holds once \<open>__init__\<close> has returned.)\<close>

definition evaluate_legacy1 :: "special \<Rightarrow> dedp \<Rightarrow> real \<Rightarrow> real \<Rightarrow> err + fl" where
  "evaluate_legacy1 sp s R z =
     (if \<not> R \<le> 6 then Inr (kp_call (kp s) R z)
      else bnd (gl_sum s (j0zeros s) (dj0zeros s) (kmaxFac s * beta s) R
                  (evaluate_evalInt sp s R z))
             (\<lambda>v. Inr (Fin (- 2 * pi * alpha s) * v)))"

definition Rforce_legacy1 :: "special \<Rightarrow> dedp \<Rightarrow> real \<Rightarrow> real \<Rightarrow> err + fl" where
  "Rforce_legacy1 sp s R z =
     (if R > 16 * hr s \<or> R > 6 then Inr (kp_Rforce (kp s) R z)
      else bnd (gl_sum s (j1zeros s) (dj1zeros s) (2 * kmaxFac s * beta s) R
                  (Rforce_evalInt sp s R z))
             (\<lambda>v. Inr (Fin (- 2 * pi * alpha s) * v)))"

definition zforce_legacy1 :: "special \<Rightarrow> dedp \<Rightarrow> real \<Rightarrow> real \<Rightarrow> err + fl" where
  "zforce_legacy1 sp s R z =
     (if R > 16 * hr s \<or> R > 6 then Inr (kp_zforce (kp s) R z)
      else bnd (gl_sum s (j0zeros s) (dj0zeros s) (kmaxFac s * beta s) R
                  (zforce_evalInt sp s R z))
             (\<lambda>v. Inr (if z > 0 then Fin (- 2 * pi * alpha s * beta s) * v
                        else Fin (2 * pi * alpha s * beta s) * v)))"

definition R2deriv_legacy1 :: "special \<Rightarrow> dedp \<Rightarrow> real \<Rightarrow> real \<Rightarrow> err + fl" where
  "R2deriv_legacy1 sp s R z =
     (if R > 16 * hr s \<or> R > 6 then Inr (kp_R2deriv (kp s) R z)
      else
        bnd (maxzeroIndx (j0zeros s) (2 * kmaxFac s * beta s) R) (\<lambda>n0.
        bnd (maxzeroIndx (j2zeros s) (2 * kmaxFac s * beta s) R) (\<lambda>n2.
        bnd (gl_ks s (j0zeros s) (dj0zeros s) n0) (\<lambda>ks0.
        bnd (gl_weights s (dj0zeros s) n0) (\<lambda>weights0.
        bnd (gl_ks s (j2zeros s) (dj2zeros s) n2) (\<lambda>ks2.
        bnd (gl_weights s (dj2zeros s) n2) (\<lambda>weights2.
        bnd (weighted_sum weights0 ks0 (R2deriv_evalInt sp s 0 R z)) (\<lambda>v0.
        bnd (weighted_sum weights2 ks2 (R2deriv_evalInt sp s 2 R z)) (\<lambda>v2.
          Inr (Fin (pi * alpha s) * (v0 - v2)))))))))))"

definition z2deriv_legacy1 :: "special \<Rightarrow> dedp \<Rightarrow> real \<Rightarrow> real \<Rightarrow> err + fl" where
  "z2deriv_legacy1 sp s R z =
     (if R > 16 * hr s \<or> R > 6 then Inr (kp_z2deriv (kp s) R z)
      else bnd (gl_sum s (j0zeros s) (dj0zeros s) (kmaxFac s * beta s) R
                  (z2deriv_evalInt sp s R z))
             (\<lambda>v. Inr (Fin (- 2 * pi * alpha s * beta s) * v)))"

definition Rzderiv_legacy1 :: "special \<Rightarrow> dedp \<Rightarrow> real \<Rightarrow> real \<Rightarrow> err + fl" where
  "Rzderiv_legacy1 sp s R z =
     (if R > 6 then Inr (kp_Rzderiv (kp s) R z)
      else bnd (gl_sum s (j1zeros s) (dj1zeros s) (2 * kmaxFac s * beta s) R
                  (Rzderiv_evalInt sp s R z))
             (\<lambda>v. Inr (if z \<ge> 0 then Fin (- 2 * pi * alpha s * beta s) * v
                        else Fin (2 * pi * alpha s * beta s) * v)))"

text \<open>A legacy branch on a query: the float itself, or every entry of the arrays in turn
  (the loop over \<open>jj\<close> in \<open>_evaluate\<close>, the comprehension over \<open>zip(R,z)\<close> elsewhere).\<close>

definition pointwise :: "(real \<Rightarrow> real \<Rightarrow> err + fl) \<Rightarrow> coords \<Rightarrow> err + result" where
  "pointwise f q =
     bnd (collect (map (\<lambda>(R, z). f R z) (points q))) (\<lambda>out. Inr (shaped q out))"

section \<open>The evaluation methods\<close>

definition evaluate :: "special \<Rightarrow> dedp \<Rightarrow> coords \<Rightarrow> err + result" where
  "evaluate sp s q = (if de s then evaluate_de s q else pointwise (evaluate_legacy1 sp s) q)"

definition Rforce :: "special \<Rightarrow> dedp \<Rightarrow> coords \<Rightarrow> err + result" where
  "Rforce sp s q = (if de s then Rforce_de s q else pointwise (Rforce_legacy1 sp s) q)"

definition zforce :: "special \<Rightarrow> dedp \<Rightarrow> coords \<Rightarrow> err + result" where
  "zforce sp s q = (if de s then zforce_de s q else pointwise (zforce_legacy1 sp s) q)"

definition R2deriv :: "special \<Rightarrow> dedp \<Rightarrow> coords \<Rightarrow> err + result" where
  "R2deriv sp s q = (if de s then R2deriv_de s q else pointwise (R2deriv_legacy1 sp s) q)"

definition z2deriv :: "special \<Rightarrow> dedp \<Rightarrow> coords \<Rightarrow> err + result" where
  "z2deriv sp s q = (if de s then z2deriv_de s q else pointwise (z2deriv_legacy1 sp s) q)"

definition Rzderiv :: "special \<Rightarrow> dedp \<Rightarrow> coords \<Rightarrow> err + result" where
  "Rzderiv sp s q = (if de s then Rzderiv_de s q else pointwise (Rzderiv_legacy1 sp s) q)"

text \<open>An evaluation call of the public contract: the quantity's method runs on the model
  and the model is handed back. No method assigns to an attribute.\<close>

datatype quantity =
    Potential | RadialForce | VerticalForce | SecondDerivRR | SecondDerivZZ | SecondDerivRZ
  | Density | SurfaceDensity

definition call :: "special \<Rightarrow> quantity \<Rightarrow> dedp \<Rightarrow> coords \<Rightarrow> (err + result) \<times> dedp" where
  "call sp qty s q =
     (case qty of
        Potential \<Rightarrow> (evaluate sp s q, s)
      | RadialForce \<Rightarrow> (Rforce sp s q, s)
      | VerticalForce \<Rightarrow> (zforce sp s q, s)
      | SecondDerivRR \<Rightarrow> (R2deriv sp s q, s)
      | SecondDerivZZ \<Rightarrow> (z2deriv sp s q, s)
      | SecondDerivRZ \<Rightarrow> (Rzderiv sp s q, s)
      | Density \<Rightarrow> (dens s q, s)
      | SurfaceDensity \<Rightarrow> (surfdens s q, s))"

section \<open>Example models\<close>

text \<open>A stand-in for the library functions, and a disk with Gauss--Legendre order 1
  (node 0, weight 2) and tables cut to two entries, for closed instances of the theorems
  below. The zeros are those of the Bessel functions rounded to three decimals.\<close>

definition example_special :: special where
  "example_special =
     \<lparr> leggauss = (\<lambda>n. ([0], [2])), jn_zeros = (\<lambda>order n. []),
       j0 = (\<lambda>x. 1), j1 = (\<lambda>x. 1), jv = (\<lambda>order x. 1), jn = (\<lambda>order x. 1) \<rparr>"

definition example_disk :: "real \<Rightarrow> real \<Rightarrow> bool \<Rightarrow> dedp" where
  "example_disk hr' hz' de' =
     \<lparr> kmaxFac = 2, glorder = 1, hr = hr', hz = hz',
       alpha = 1 / hr', beta = 1 / hz', gamma = hz' / hr',
       glx = [0], glw = [2], nzeros = 2,
       j0zeros = [0, 2.405, 5.520], dj0zeros = [0, 2.405, 3.115],
       j1zeros = [0, 3.832, 7.016], dj1zeros = [0, 3.832, 3.184],
       j2zeros = [0, 5.136, 8.417], dj2zeros = [0, 5.136, 3.281],
       de = de', de_h = 1 / 1000, de_n = 2,
       de_j0zeros = [0.7655, 1.757], de_j1zeros = [1.220, 2.233],
       de_j0_xs = [0.002892, 0.01524], de_j0_weights = [Fin 0.007421, Fin 0.01727],
       de_j1_xs = [0.007341, 0.02461], de_j1_weights = [Fin 0.00004526, Fin 0.0002732],
       kp = KeplerPotential (4 * pi * hr'\<^sup>2 * hz') \<rparr>"

text \<open>The same disk with a third table entry whose weights are NaN, as the default
  tables have them where \<open>_de_psiprime\<close> overflows.\<close>

definition example_disk_nan :: "real \<Rightarrow> real \<Rightarrow> bool \<Rightarrow> dedp" where
  "example_disk_nan hr' hz' de' =
     (example_disk hr' hz' de')
       \<lparr> de_n := 3,
         de_j0zeros := [0.7655, 1.757, 2.755], de_j1zeros := [1.220, 2.233, 3.238],
         de_j0_xs := [0.002892, 0.01524, 0.03744],
         de_j0_weights := [Fin 0.007421, Fin 0.01727, NaN],
         de_j1_xs := [0.007341, 0.02461, 0.05175],
         de_j1_weights := [Fin 0.00004526, Fin 0.0002732, NaN] \<rparr>"

section \<open>Invariants and the spec's formulas\<close>

text \<open>The shape parameters as \<open>__init__\<close> leaves them for positive scale lengths.\<close>

definition shape_ok :: "dedp \<Rightarrow> bool" where
  "shape_ok s = (0 < hr s \<and> 0 < hz s \<and> alpha s = 1 / hr s \<and> beta s = 1 / hz s)"

text \<open>A weight that is finite or NaN: the default tables hold NaN weights where
  \<open>_de_psiprime\<close> overflows, and no infinite ones.\<close>

fun not_inf :: "fl \<Rightarrow> bool" where
  "not_inf (Fin r) = True"
| "not_inf NaN = True"
| "not_inf PInf = False"
| "not_inf NInf = False"

text \<open>The invariants of the DE tables: four tables of one length, positive nodes (each is
  \<open>pi / h * psi (h * t)\<close> with \<open>t > 0\<close>) and no infinite weight.\<close>

definition de_tables_ok :: "dedp \<Rightarrow> bool" where
  "de_tables_ok s =
     (length (de_j0_xs s) = length (de_j0_weights s) \<and>
      length (de_j1_xs s) = length (de_j1_weights s) \<and>
      length (de_j0_xs s) = length (de_j1_xs s) \<and>
      list_all (\<lambda>x. 0 < x) (de_j0_xs s) \<and> list_all (\<lambda>x. 0 < x) (de_j1_xs s) \<and>
      list_all not_inf (de_j0_weights s) \<and> list_all not_inf (de_j1_weights s))"

fun fin_val :: "fl \<Rightarrow> real" where
  "fin_val (Fin r) = r"
| "fin_val PInf = 0"
| "fin_val NInf = 0"
| "fin_val NaN = 0"

text \<open>The spec's kernel of the potential at the scaled node \<open>k = x / R\<close>, over the
  reals, and the nodes at which it is not finite: those where its denominator
  \<open>beta\<^sup>2 - (x/R)\<^sup>2\<close> vanishes.\<close>

definition pot_kernel :: "real \<Rightarrow> real \<Rightarrow> real \<Rightarrow> real \<Rightarrow> real" where
  "pot_kernel a b k z =
     (a\<^sup>2 + k\<^sup>2) powr (- 3 / 2) * (b * exp (- k * \<bar>z\<bar>) - k * exp (- b * \<bar>z\<bar>)) / (b\<^sup>2 - k\<^sup>2)"

definition singular :: "dedp \<Rightarrow> real \<Rightarrow> real \<Rightarrow> bool" where
  "singular s R x = ((beta s)\<^sup>2 - (x / R)\<^sup>2 = 0)"

text \<open>The potential in the spec's words: the prefactor \<open>-4 pi alpha / R\<close>, computed in
  doubles, times the sum over the order-0 nodes of weight times kernel, the non-finite
  terms (a singular node, a NaN weight) skipped.\<close>

definition spec_sum :: "dedp \<Rightarrow> real \<Rightarrow> real \<Rightarrow> real" where
  "spec_sum s R z =
     (\<Sum>(x, w) \<leftarrow> filter (\<lambda>(x, w). \<not> singular s R x \<and> is_fin w)
                             (zip (de_j0_xs s) (de_j0_weights s)).
        fin_val w * pot_kernel (alpha s) (beta s) (x / R) z)"

definition spec_potential :: "dedp \<Rightarrow> real \<Rightarrow> real \<Rightarrow> fl" where
  "spec_potential s R z = ck_div (c_alpha s) (Fin R) * Fin (spec_sum s R z)"

text \<open>A value that adds nothing to a \<open>nansum\<close>.\<close>

fun zero_or_nan :: "fl \<Rightarrow> bool" where
  "zero_or_nan (Fin r) = (r = 0)"
| "zero_or_nan NaN = True"
| "zero_or_nan PInf = False"
| "zero_or_nan NInf = False"

text \<open>A finite, strictly positive value.\<close>

fun is_pos :: "fl \<Rightarrow> bool" where
  "is_pos (Fin r) = (0 < r)"
| "is_pos NaN = False"
| "is_pos PInf = False"
| "is_pos NInf = False"

text \<open>The outcome of a call with the sign of its value flipped.\<close>

definition negated :: "err + result \<Rightarrow> err + result" where
  "negated m = (case m of Inl e \<Rightarrow> Inl e | Inr v \<Rightarrow> Inr (negate v))"


text \<open>\<open>secondDerivRR\<close>. The shared kernel \<open>x\<^sup>2 * kernel\<close> at the node \<open>x\<close>, and the
  prefactor \<open>4 pi alpha / R\<^sup>3\<close> computed in doubles.\<close>

definition R2_kernel :: "dedp \<Rightarrow> real \<Rightarrow> real \<Rightarrow> real \<Rightarrow> real" where
  "R2_kernel s R z x = x\<^sup>2 * pot_kernel (alpha s) (beta s) (x / R) z"

definition R2_prefactor :: "dedp \<Rightarrow> real \<Rightarrow> fl" where
  "R2_prefactor s R = ck_div (c_alpha_pos s) (Fin (R ^ 3))"

text \<open>In the spec's words: the difference of the order-0 weighted sum and the order-1
  weighted sum, each order-1 term divided by its node, each sum skipping its own
  non-finite terms.\<close>

definition spec_R2deriv_sum :: "dedp \<Rightarrow> real \<Rightarrow> real \<Rightarrow> real" where
  "spec_R2deriv_sum s R z =
     (\<Sum>(x, w) \<leftarrow> filter (\<lambda>(x, w). \<not> singular s R x \<and> is_fin w)
                             (zip (de_j0_xs s) (de_j0_weights s)).
        fin_val w * R2_kernel s R z x)
     - (\<Sum>(x, w) \<leftarrow> filter (\<lambda>(x, w). \<not> singular s R x \<and> is_fin w)
                               (zip (de_j1_xs s) (de_j1_weights s)).
          fin_val w * R2_kernel s R z x / x)"

definition spec_R2deriv :: "dedp \<Rightarrow> real \<Rightarrow> real \<Rightarrow> fl" where
  "spec_R2deriv s R z = R2_prefactor s R * Fin (spec_R2deriv_sum s R z)"

text \<open>What the DE branch of \<open>_R2deriv\<close> adds up: the two terms of an index are
  subtracted before the \<open>nansum\<close>, so an index is skipped as a whole when either of its
  nodes is singular or either of its weights is NaN.\<close>

definition paired_R2deriv_sum :: "dedp \<Rightarrow> real \<Rightarrow> real \<Rightarrow> real" where
  "paired_R2deriv_sum s R z =
     (\<Sum>((x0, w0), (x1, w1)) \<leftarrow>
        filter (\<lambda>((x0, w0), (x1, w1)).
                  (\<not> singular s R x0 \<and> is_fin w0) \<and> (\<not> singular s R x1 \<and> is_fin w1))
          (zip (zip (de_j0_xs s) (de_j0_weights s)) (zip (de_j1_xs s) (de_j1_weights s))).
        fin_val w0 * R2_kernel s R z x0 - fin_val w1 * R2_kernel s R z x1 / x1)"

definition paired_R2deriv :: "dedp \<Rightarrow> real \<Rightarrow> real \<Rightarrow> fl" where
  "paired_R2deriv s R z = R2_prefactor s R * Fin (paired_R2deriv_sum s R z)"

section \<open>Arithmetic on floating-point values\<close>

lemma fl_plus [simp]: "Fin a + Fin b = Fin (a + b)" "NaN + v = NaN" "v + NaN = NaN"
  by (cases v; simp add: plus_fl_def)+

lemma fl_minus [simp]: "Fin a - Fin b = Fin (a - b)" "NaN - v = NaN" "v - NaN = NaN"
  by (cases v; simp add: minus_fl_def)+

lemma fl_uminus [simp]: "- Fin a = Fin (- a)" "- NaN = NaN" "- PInf = NInf" "- NInf = PInf"
  by (simp_all add: uminus_fl_def)

lemma fl_times [simp]: "Fin a * Fin b = Fin (a * b)" "NaN * v = NaN" "v * NaN = NaN"
  by (cases v; simp add: times_fl_def)+

lemma fl_divide [simp]:
  "b \<noteq> 0 \<Longrightarrow> Fin a / Fin b = Fin (a / b)" "Fin a / Fin 0 = inf_of_sign a"
  "NaN / v = NaN" "v / NaN = NaN"
  by (cases v; simp add: divide_fl_def)+

lemma fl_pow2_Fin [simp]: "fl_pow2 (Fin a) = Fin (a\<^sup>2)"
  by (simp add: fl_pow2_def power2_eq_square)

lemma fl_pow_m15_pos: "0 < a \<Longrightarrow> fl_pow_m15 (Fin a) = Fin (a powr (- 3 / 2))"
  by simp

lemma surfdens1_fin:
  "beta s \<noteq> 0 \<Longrightarrow> surfdens1 s R z = Fin (2 * exp (- alpha s * R) / beta s * (1 - exp (- beta s * \<bar>z\<bar>)))"
  by (simp add: surfdens1_def)

lemma exp_abs_tendsto_0:
  fixes b :: real assumes "0 < b"
  shows "((\<lambda>z. exp (- b * \<bar>z\<bar>)) \<longlongrightarrow> 0) at_infinity"
proof -
  have "filterlim (\<lambda>z::real. \<bar>z\<bar>) at_top at_infinity"
    using filterlim_norm_at_top[where 'a=real] by (simp add: real_norm_def[abs_def])
  then have "filterlim (\<lambda>z::real. b * \<bar>z\<bar>) at_top at_infinity"
    using assms by (intro filterlim_tendsto_pos_mult_at_top[where c=b] tendsto_const)
  then have "filterlim (\<lambda>z::real. - (b * \<bar>z\<bar>)) at_bot at_infinity"
    by (simp add: filterlim_uminus_at_bot)
  then have "((\<lambda>z. exp (- (b * \<bar>z\<bar>))) \<longlongrightarrow> 0) at_infinity"
    by (rule filterlim_compose[OF exp_at_bot])
  then show ?thesis by simp
qed

lemma surf_limit:
  fixes a b R :: real assumes "0 < b"
  shows "((\<lambda>z. 2 * exp (- a * R) / b * (1 - exp (- b * \<bar>z\<bar>))) \<longlongrightarrow> 2 * exp (- a * R) / b) at_infinity"
proof -
  have "((\<lambda>z. 2 * exp (- a * R) / b * (1 - exp (- b * \<bar>z\<bar>))) \<longlongrightarrow> 2 * exp (- a * R) / b * (1 - 0)) at_infinity"
    by (intro tendsto_intros exp_abs_tendsto_0 assms)
  then show ?thesis by simp
qed

section \<open>Surface density\<close>

lemma surfdens_float:
  assumes "beta s \<noteq> 0"
  shows "surfdens s (PyFloats R z) =
         Inr (Float64 (Fin (2 * exp (- alpha s * R) / beta s * (1 - exp (- beta s * \<bar>z\<bar>)))))"
  using assms by (simp add: surfdens_def elementwise_def surfdens1_fin)

lemma surfdens_tendsto:
  assumes "shape_ok s"
  shows "((\<lambda>z. 2 * exp (- alpha s * R) / beta s * (1 - exp (- beta s * \<bar>z\<bar>)))
           \<longlongrightarrow> 2 * hz s * exp (- R / hr s)) at_infinity"
proof -
  from assms have b: "0 < beta s" and bz: "beta s = 1 / hz s" and a: "alpha s = 1 / hr s"
    by (simp_all add: shape_ok_def)
  have l0: "((\<lambda>z. 2 * exp (- alpha s * R) / beta s * (1 - exp (- beta s * \<bar>z\<bar>)))
              \<longlongrightarrow> 2 * exp (- alpha s * R) / beta s) at_infinity"
    using b by (rule surf_limit)
  have "2 * hz s * exp (- R / hr s) = 2 * exp (- alpha s * R) / beta s"
    by (simp add: a bz)
  with l0 show ?thesis by (rule tendsto_cong_limit)
qed

lemma example_disk_shape_ok: "0 < h \<Longrightarrow> 0 < v \<Longrightarrow> shape_ok (example_disk h v d)"
  by (simp add: shape_ok_def example_disk_def)

text \<open>
  Claim C6, as amended. For every \<open>R\<close>, \<open>surfaceDensity(R, 0) = 0\<close>, and
  \<open>surfaceDensity(R, z)\<close> tends to \<open>2 * hz * exp(-R/hr)\<close> as \<open>|z|\<close> tends to infinity:
  the factor is \<open>2 / beta = 2 * hz\<close>, not \<open>2 / hz\<close>.
\<close>

theorem surfdens_zero_and_limit:
  assumes "shape_ok s"
  shows "surfdens s (PyFloats R 0) = Inr (Float64 (Fin 0)) \<and>
         (\<exists>g. (\<forall>z. surfdens s (PyFloats R z) = Inr (Float64 (Fin (g z)))) \<and>
              (g \<longlongrightarrow> 2 * hz s * exp (- R / hr s)) at_infinity)"
proof -
  from assms have b: "beta s \<noteq> 0" by (simp add: shape_ok_def)
  let ?g = "\<lambda>z. 2 * exp (- alpha s * R) / beta s * (1 - exp (- beta s * \<bar>z\<bar>))"
  show ?thesis
  proof (intro conjI exI[of _ ?g] allI)
    show "surfdens s (PyFloats R 0) = Inr (Float64 (Fin 0))"
      using surfdens_float[OF b, of R 0] by simp
    show "surfdens s (PyFloats R z) = Inr (Float64 (Fin (?g z)))" for z
      by (rule surfdens_float[OF b])
    show "(?g \<longlongrightarrow> 2 * hz s * exp (- R / hr s)) at_infinity"
      by (rule surfdens_tendsto[OF assms])
  qed
qed

theorem surfdens_zero_and_limit_witness:
  "shape_ok (example_disk (1/3) (1/16) True) \<and>
   surfdens (example_disk (1/3) (1/16) True) (PyFloats 1 0) = Inr (Float64 (Fin 0)) \<and>
   (\<exists>g. (\<forall>z. surfdens (example_disk (1/3) (1/16) True) (PyFloats 1 z)
               = Inr (Float64 (Fin (g z)))) \<and>
        (g \<longlongrightarrow> 2 * hz (example_disk (1/3) (1/16) True)
                * exp (- 1 / hr (example_disk (1/3) (1/16) True))) at_infinity)"
  using surfdens_zero_and_limit[of "example_disk (1/3) (1/16) True" 1]
    example_disk_shape_ok[of "1/3" "1/16" True]
  by simp

text \<open>
  Claim C6 as stated fails: for \<open>hr = 1/3\<close>, \<open>hz = 1/16\<close> and \<open>R = 1\<close> the surface
  density does not tend to \<open>2 * exp(-R/hr) / hz\<close>.
\<close>

theorem surfdens_limit_counterexample:
  "\<not> (\<exists>g. (\<forall>z. surfdens (example_disk (1/3) (1/16) True) (PyFloats 1 z)
                 = Inr (Float64 (Fin (g z)))) \<and>
          (g \<longlongrightarrow> 2 * exp (- 1 / (1/3)) / (1/16)) at_infinity)"
proof
  let ?s = "example_disk (1/3) (1/16) True"
  let ?g = "\<lambda>z. 2 * exp (- alpha ?s * 1) / beta ?s * (1 - exp (- beta ?s * \<bar>z\<bar>))"
  assume "\<exists>g. (\<forall>z. surfdens ?s (PyFloats 1 z) = Inr (Float64 (Fin (g z)))) \<and>
          (g \<longlongrightarrow> 2 * exp (- 1 / (1/3)) / (1/16)) at_infinity"
  then obtain g where g: "\<And>z. surfdens ?s (PyFloats 1 z) = Inr (Float64 (Fin (g z)))"
    and lim: "(g \<longlongrightarrow> 2 * exp (- 1 / (1/3)) / (1/16)) at_infinity" by blast
  have ok: "shape_ok ?s" by (rule example_disk_shape_ok) simp_all
  then have b: "beta ?s \<noteq> 0" by (simp add: shape_ok_def)
  have "g = ?g" using g surfdens_float[OF b, of 1] by (auto simp: fun_eq_iff)
  with lim surfdens_tendsto[OF ok, of 1]
  have "(?g \<longlongrightarrow> 2 * exp (- 1 / (1/3)) / (1/16)) at_top"
    and "(?g \<longlongrightarrow> 2 * hz ?s * exp (- 1 / hr ?s)) at_top"
    by (auto intro: tendsto_mono[OF at_top_le_at_infinity])
  then have "2 * exp (- 1 / (1/3)) / (1/16) = 2 * hz ?s * exp (- 1 / hr ?s)"
    by (rule tendsto_unique[OF trivial_limit_at_top_linorder])
  then show False by (simp add: example_disk_def)
qed

section \<open>The DE potential\<close>

lemma nansum_Nil [simp]: "nansum [] = Fin 0"
  by (simp add: nansum_def)

lemma nansum_Cons [simp]: "nansum (v # vs) = (if isnan v then nansum vs else v + nansum vs)"
  by (simp add: nansum_def)

lemma nansum_terms_keep:
  assumes "\<forall>p \<in> set ps. (\<not> keep p \<longrightarrow> f p = NaN) \<and> (keep p \<longrightarrow> f p = Fin (g p))"
  shows "nansum (map f ps) = Fin (sum_list (map g (filter keep ps)))"
  using assms by (induction ps) auto

lemma is_fin_conv: "is_fin w \<longleftrightarrow> w = Fin (fin_val w)"
  by (cases w) simp_all

lemma not_inf_cases: "not_inf w \<Longrightarrow> is_fin w \<or> w = NaN"
  by (cases w) simp_all

lemma evaluate_fun_regular:
  assumes "R \<noteq> 0" "0 < (alpha s)\<^sup>2 + (x / R)\<^sup>2" "\<not> singular s R x"
  shows "evaluate_fun s x R z = Fin (pot_kernel (alpha s) (beta s) (x / R) z)"
  using assms
  by (simp add: evaluate_fun_def pot_kernel_def singular_def del: fl_pow_m15.simps
      add: fl_pow_m15_pos)

lemma node_facts:
  fixes a :: real
  assumes "0 < R" "0 < x"
  shows "R \<noteq> 0 \<and> 0 < x / R \<and> 0 < a\<^sup>2 + (x / R)\<^sup>2"
proof -
  have "0 < (x / R)\<^sup>2" using assms by simp
  then have "0 < a\<^sup>2 + (x / R)\<^sup>2"
    by (rule add_nonneg_pos[OF zero_le_power2])
  then show ?thesis using assms by simp
qed

lemma singular_eq:
  assumes "0 < R" "0 < x" "0 < beta s" "singular s R x"
  shows "x / R = beta s"
proof -
  have e: "(x / R)\<^sup>2 = (beta s)\<^sup>2" using assms by (simp add: singular_def)
  have "0 \<le> x / R" "0 \<le> beta s" using assms by simp_all
  with e show ?thesis by (simp only: power2_eq_iff_nonneg)
qed

lemma evaluate_fun_singular:
  assumes "0 < R" "0 < x" "0 < beta s" "singular s R x"
  shows "evaluate_fun s x R z = NaN"
  using node_facts[OF assms(1,2), where a="alpha s"] singular_eq[OF assms]
  by (simp add: evaluate_fun_def inf_of_sign_def del: fl_pow_m15.simps add: fl_pow_m15_pos)

lemma in_zip_tables:
  assumes "list_all P xs" "list_all Q ws" "(x, w) \<in> set (zip xs ws)"
  shows "P x \<and> Q w"
  using assms by (auto simp: list_all_iff dest: set_zip_leftD set_zip_rightD)

lemma evaluate_fun_term:
  assumes "0 < beta s" "0 < R" "0 < x" "not_inf w"
  shows "(\<not> (\<not> singular s R x \<and> is_fin w) \<longrightarrow> evaluate_fun s x R z * w = NaN) \<and>
         (\<not> singular s R x \<and> is_fin w \<longrightarrow>
            evaluate_fun s x R z * w = Fin (fin_val w * pot_kernel (alpha s) (beta s) (x / R) z))"
proof (cases "singular s R x")
  case True
  then show ?thesis using evaluate_fun_singular[OF assms(2,3,1)] by simp
next
  case False
  have r: "evaluate_fun s x R z = Fin (pot_kernel (alpha s) (beta s) (x / R) z)"
    using node_facts[OF assms(2,3), where a="alpha s"] False
    by (intro evaluate_fun_regular) simp_all
  show ?thesis
  proof (cases "is_fin w")
    case True
    then have "w = Fin (fin_val w)" by (simp add: is_fin_conv)
    then have "evaluate_fun s x R z * w
                 = Fin (fin_val w * pot_kernel (alpha s) (beta s) (x / R) z)"
      using r by (metis fl_times(1) mult.commute)
    then show ?thesis using True False by simp
  next
    case nf: False
    then have "w = NaN" using not_inf_cases[OF assms(4)] by simp
    then show ?thesis using nf by simp
  qed
qed

lemma evaluate_de_sum:
  assumes "0 < beta s" "list_all (\<lambda>x. 0 < x) xs" "list_all not_inf ws" "0 < R"
  shows "nansum (map (\<lambda>(x, w). evaluate_fun s x R z * w) (zip xs ws))
         = Fin (\<Sum>(x, w) \<leftarrow> filter (\<lambda>(x, w). \<not> singular s R x \<and> is_fin w) (zip xs ws).
                  fin_val w * pot_kernel (alpha s) (beta s) (x / R) z)"
  unfolding case_prod_unfold
proof (rule nansum_terms_keep[where
      keep="\<lambda>p. \<not> singular s R (fst p) \<and> is_fin (snd p)"], clarify)
  fix x w assume "(x, w) \<in> set (zip xs ws)"
  from in_zip_tables[OF assms(2,3) this] have x: "0 < x" and w: "not_inf w" by simp_all
  show "(\<not> (\<not> singular s R (fst (x, w)) \<and> is_fin (snd (x, w))) \<longrightarrow>
           evaluate_fun s (fst (x, w)) R z * snd (x, w) = NaN) \<and>
        (\<not> singular s R (fst (x, w)) \<and> is_fin (snd (x, w)) \<longrightarrow>
           evaluate_fun s (fst (x, w)) R z * snd (x, w)
             = Fin (fin_val (snd (x, w)) * pot_kernel (alpha s) (beta s) (fst (x, w) / R) z))"
    unfolding fst_conv snd_conv by (rule evaluate_fun_term[OF assms(1,4) x w])
qed


lemma example_disk_tables_ok: "de_tables_ok (example_disk h v d)"
  by (simp add: de_tables_ok_def example_disk_def)

lemma example_disk_nan_tables_ok: "de_tables_ok (example_disk_nan h v d)"
  by (simp add: de_tables_ok_def example_disk_nan_def example_disk_def)

lemma example_disk_nan_shape_ok: "0 < h \<Longrightarrow> 0 < v \<Longrightarrow> shape_ok (example_disk_nan h v d)"
  by (simp add: shape_ok_def example_disk_nan_def example_disk_def)

section \<open>The range of the doubles\<close>

lemma max_float_less: "max_float < 2 ^ 1024"
proof -
  have "(2 - 1 / 2 ^ 52) * 2 ^ 1023 < (2::real) * 2 ^ 1023"
    by (intro mult_strict_right_mono) simp_all
  then show ?thesis by (simp add: max_float_def)
qed

lemma max_float_ge: "2 ^ 1023 \<le> max_float"
proof -
  have "(1::real) * 2 ^ 1023 \<le> (2 - 1 / 2 ^ 52) * 2 ^ 1023"
    by (intro mult_right_mono) (simp_all add: field_simps)
  then show ?thesis by (simp add: max_float_def)
qed

lemma min_float_bounds: "0 < min_float" "min_float \<le> 1"
  by (simp_all add: min_float_def field_simps)

lemma flt_in_range:
  assumes "1 \<le> \<bar>r\<bar>" "\<bar>r\<bar> \<le> 2 ^ 1023"
  shows "flt r = Fin r"
proof -
  have "\<bar>r\<bar> \<le> max_float" using assms(2) max_float_ge by linarith
  moreover have "min_float / 2 < \<bar>r\<bar>" using assms(1) min_float_bounds by linarith
  ultimately show ?thesis by (auto simp: flt_def)
qed

lemma flt_overflow:
  assumes "r \<le> - (2 ^ 1024)"
  shows "flt r = NInf"
proof -
  have "(0::real) \<le> 2 ^ 1023" by (rule zero_le_power) simp
  then have p: "0 \<le> max_float" using max_float_ge by linarith
  have a: "r < - max_float" using assms max_float_less by linarith
  then have b: "\<not> max_float < r" using p by linarith
  show ?thesis unfolding flt_def using a b by (simp only: if_True if_False)
qed

lemma pi_bounds: "2 \<le> pi" "pi < 4"
  using pi_ge_two pi_less_4 by simp_all

section \<open>The vertical force and the mixed derivative in the plane\<close>

lemma zero_or_nan_times: "zero_or_nan v \<Longrightarrow> zero_or_nan (v * w)"
  by (cases v; cases w) (simp_all add: times_fl_def inf_of_sign_def)

lemma zero_or_nan_divide_Fin: "zero_or_nan v \<Longrightarrow> zero_or_nan (v / Fin d)"
  by (cases v) (simp_all add: divide_fl_def inf_of_sign_def)

lemma nansum_zero_or_nan: "list_all zero_or_nan vs \<Longrightarrow> nansum vs = Fin 0"
  by (induction vs) (auto elim: zero_or_nan.elims)

lemma times_Fin_zero: "zero_or_nan (v * Fin 0)"
  by (cases v) (simp_all add: times_fl_def inf_of_sign_def)

lemma zforce_fun_at_0:
  assumes "R \<noteq> 0"
  shows "zero_or_nan (zforce_fun s x R 0)"
  using assms unfolding zforce_fun_def
  by (auto intro!: zero_or_nan_divide_Fin times_Fin_zero simp del: fl_pow_m15.simps)

lemma Rzderiv_fun_at_0:
  assumes "R \<noteq> 0"
  shows "zero_or_nan (Rzderiv_fun s x R 0)"
  using assms unfolding Rzderiv_fun_def
  by (auto intro!: zero_or_nan_divide_Fin times_Fin_zero simp del: fl_pow_m15.simps)

lemma weighted_zero:
  assumes "\<And>x. zero_or_nan (f x)" "length xs = length ws"
  shows "bnd (bop (*) (map f xs) ws) (\<lambda>ts. Inr (nansum ts)) = Inr (Fin 0)"
proof -
  have "list_all zero_or_nan (map (\<lambda>(v, w). v * w) (zip (map f xs) ws))"
    using assms(1) by (auto simp: list_all_iff zip_map1 intro!: zero_or_nan_times)
  then show ?thesis
    using assms(2) by (simp add: bop_def bnd_def broadcast_def nansum_zero_or_nan)
qed


lemma scale_zero: "v * Fin 0 = (if is_fin v then Fin 0 else NaN)"
  by (cases v) (simp_all add: times_fl_def inf_of_sign_def)

lemma neg_zero_or_nan: "- (if b then Fin 0 else NaN) = (if b then Fin 0 else NaN)"
  by simp

lemma zforce_de_at_z0:
  assumes "de s" "R \<noteq> 0" "length (de_j0_xs s) = length (de_j0_weights s)"
  shows "zforce sp s (PyFloats R 0)
           = Inr (Float64 (if is_fin (ck_div (c_alpha_beta s) (Fin R)) then Fin 0 else NaN))"
    and "zforce sp s (NpFloats R 0)
           = Inr (Float64 (if is_fin (ck_div (c_alpha_beta s) (Fin R)) then Fin 0 else NaN))"
proof -
  have z: "bnd (bop (*) (map (\<lambda>x. zforce_fun s x R 0) (de_j0_xs s)) (de_j0_weights s))
             (\<lambda>ts. Inr (nansum ts)) = Inr (Fin 0)"
    by (rule weighted_zero[OF zforce_fun_at_0[OF assms(2)] assms(3)])
  show "zforce sp s (PyFloats R 0)
           = Inr (Float64 (if is_fin (ck_div (c_alpha_beta s) (Fin R)) then Fin 0 else NaN))"
    using assms(1,2) z
    by (simp add: zforce_def zforce_de_def prefactor_def py_pow_def
        weighted_nansum_def fun_on_def z_test_def bnd_def scale_zero)
  show "zforce sp s (NpFloats R 0)
           = Inr (Float64 (if is_fin (ck_div (c_alpha_beta s) (Fin R)) then Fin 0 else NaN))"
    using assms(1,2) z
    by (simp add: zforce_def zforce_de_def prefactor_def np_pow_def
        weighted_nansum_def fun_on_def z_test_def bnd_def scale_zero)
qed

lemma Rzderiv_de_at_z0:
  assumes "de s" "R \<noteq> 0" "length (de_j1_xs s) = length (de_j1_weights s)"
  shows "Rzderiv sp s (PyFloats R 0)
           = Inr (Float64 (if is_fin (ck_div (c_alpha_beta s) (Fin R)) then Fin 0 else NaN))"
    and "Rzderiv sp s (NpFloats R 0)
           = Inr (Float64 (if is_fin (ck_div (c_alpha_beta s) (Fin R)) then Fin 0 else NaN))"
proof -
  have z: "bnd (bop (*) (map (\<lambda>x. Rzderiv_fun s x R 0) (de_j1_xs s)) (de_j1_weights s))
             (\<lambda>ts. Inr (nansum ts)) = Inr (Fin 0)"
    by (rule weighted_zero[OF Rzderiv_fun_at_0[OF assms(2)] assms(3)])
  show "Rzderiv sp s (PyFloats R 0)
           = Inr (Float64 (if is_fin (ck_div (c_alpha_beta s) (Fin R)) then Fin 0 else NaN))"
    using assms(1,2) z
    by (simp add: Rzderiv_def Rzderiv_de_def prefactor_def py_pow_def
        weighted_nansum_def fun_on_def z_test_def bnd_def scale_zero)
  show "Rzderiv sp s (NpFloats R 0)
           = Inr (Float64 (if is_fin (ck_div (c_alpha_beta s) (Fin R)) then Fin 0 else NaN))"
    using assms(1,2) z
    by (simp add: Rzderiv_def Rzderiv_de_def prefactor_def np_pow_def
        weighted_nansum_def fun_on_def z_test_def bnd_def scale_zero)
qed

text \<open>
  Claim C10, as amended. For every finite \<open>R > 0\<close>, with the DE strategy active,
  \<open>verticalForce(R, 0)\<close> and \<open>secondDerivRZ(R, 0)\<close> are exactly zero when the prefactor
  \<open>-4 pi alpha beta / R\<close> is finite as a double: every term of the weighted sum carries
  the factor \<open>exp(0) - exp(0)\<close>, so it is zero or NaN and the \<open>nansum\<close> is zero. For an
  \<open>R\<close> so small that the prefactor overflows, the product \<open>inf * 0\<close> is NaN.
\<close>

theorem zforce_Rzderiv_de_at_z0:
  assumes "de s" "0 < R"
    "length (de_j0_xs s) = length (de_j0_weights s)"
    "length (de_j1_xs s) = length (de_j1_weights s)"
  shows "zforce sp s (PyFloats R 0)
           = Inr (Float64 (if is_fin (ck_div (c_alpha_beta s) (Fin R)) then Fin 0 else NaN)) \<and>
         Rzderiv sp s (PyFloats R 0)
           = Inr (Float64 (if is_fin (ck_div (c_alpha_beta s) (Fin R)) then Fin 0 else NaN)) \<and>
         zforce sp s (NpFloats R 0)
           = Inr (Float64 (if is_fin (ck_div (c_alpha_beta s) (Fin R)) then Fin 0 else NaN)) \<and>
         Rzderiv sp s (NpFloats R 0)
           = Inr (Float64 (if is_fin (ck_div (c_alpha_beta s) (Fin R)) then Fin 0 else NaN))"
proof -
  have R: "R \<noteq> 0" using assms(2) by simp
  show ?thesis
    using zforce_de_at_z0[OF assms(1) R assms(3)] Rzderiv_de_at_z0[OF assms(1) R assms(4)]
    by simp
qed

lemma example_c_alpha_beta:
  "c_alpha_beta (example_disk_nan (1/3) (1/16) True) = Fin (- 192 * pi)"
proof -
  have a: "flt (- (12 * pi)) = Fin (- (12 * pi))"
  proof (rule flt_in_range)
    show "1 \<le> \<bar>- (12 * pi)\<bar>" using pi_bounds by simp
    have "\<bar>- (12 * pi)\<bar> \<le> 2 ^ 6" using pi_bounds by simp
    also have "(2::real) ^ 6 \<le> 2 ^ 1023" by (rule power_increasing) simp_all
    finally show "\<bar>- (12 * pi)\<bar> \<le> 2 ^ 1023" .
  qed
  have b: "flt (- (192 * pi)) = Fin (- (192 * pi))"
  proof (rule flt_in_range)
    show "1 \<le> \<bar>- (192 * pi)\<bar>" using pi_bounds by simp
    have "\<bar>- (192 * pi)\<bar> \<le> 2 ^ 10" using pi_bounds by simp
    also have "(2::real) ^ 10 \<le> 2 ^ 1023" by (rule power_increasing) simp_all
    finally show "\<bar>- (192 * pi)\<bar> \<le> 2 ^ 1023" .
  qed
  show ?thesis
    by (simp add: c_alpha_beta_def c_alpha_def ck_mul_def example_disk_nan_def
        example_disk_def a b)
qed

lemma example_prefactor_at_1:
  "ck_div (c_alpha_beta (example_disk_nan (1/3) (1/16) True)) (Fin 1) = Fin (- 192 * pi)"
proof -
  have b: "flt (- (192 * pi)) = Fin (- (192 * pi))"
  proof (rule flt_in_range)
    show "1 \<le> \<bar>- (192 * pi)\<bar>" using pi_bounds by simp
    have "\<bar>- (192 * pi)\<bar> \<le> 2 ^ 10" using pi_bounds by simp
    also have "(2::real) ^ 10 \<le> 2 ^ 1023" by (rule power_increasing) simp_all
    finally show "\<bar>- (192 * pi)\<bar> \<le> 2 ^ 1023" .
  qed
  show ?thesis by (simp add: example_c_alpha_beta ck_div_def b)
qed

lemma example_prefactor_tiny:
  "ck_div (c_alpha_beta (example_disk_nan (1/3) (1/16) True)) (Fin (1 / 2 ^ 1030)) = NInf"
proof -
  have "(1::real) * 2 ^ 1024 \<le> 192 * pi * 2 ^ 1030"
  proof (rule mult_mono)
    show "1 \<le> 192 * pi" using pi_bounds by simp
    show "(2::real) ^ 1024 \<le> 2 ^ 1030" by (rule power_increasing) simp_all
  qed (use pi_bounds in simp_all)
  then have "- (192 * pi * 2 ^ 1030) \<le> - ((2::real) ^ 1024)" by simp
  then have "flt (- (192 * pi * 2 ^ 1030)) = NInf" by (rule flt_overflow)
  then show ?thesis by (simp add: example_c_alpha_beta ck_div_def)
qed

theorem zforce_Rzderiv_de_at_z0_witness:
  "de (example_disk_nan (1/3) (1/16) True) \<and> (0::real) < 1 \<and>
   length (de_j0_xs (example_disk_nan (1/3) (1/16) True))
     = length (de_j0_weights (example_disk_nan (1/3) (1/16) True)) \<and>
   length (de_j1_xs (example_disk_nan (1/3) (1/16) True))
     = length (de_j1_weights (example_disk_nan (1/3) (1/16) True)) \<and>
   zforce example_special (example_disk_nan (1/3) (1/16) True) (PyFloats 1 0)
     = Inr (Float64 (Fin 0)) \<and>
   Rzderiv example_special (example_disk_nan (1/3) (1/16) True) (PyFloats 1 0)
     = Inr (Float64 (Fin 0)) \<and>
   zforce example_special (example_disk_nan (1/3) (1/16) True) (NpFloats 1 0)
     = Inr (Float64 (Fin 0)) \<and>
   Rzderiv example_special (example_disk_nan (1/3) (1/16) True) (NpFloats 1 0)
     = Inr (Float64 (Fin 0))"
proof -
  let ?s = "example_disk_nan (1/3) (1/16) True"
  have d: "de ?s" and l0: "length (de_j0_xs ?s) = length (de_j0_weights ?s)"
    and l1: "length (de_j1_xs ?s) = length (de_j1_weights ?s)"
    by (simp_all add: example_disk_nan_def example_disk_def)
  have R: "(0::real) < 1" by simp
  show ?thesis
    using zforce_Rzderiv_de_at_z0[OF d R l0 l1, of example_special] d l0 l1
    by (simp add: example_prefactor_at_1)
qed

text \<open>
  Claim C10 as stated fails for a small finite \<open>R\<close>: at \<open>R = 2^(-1030)\<close>, a subnormal
  double, the prefactor of the example disk overflows and the vertical force in the
  plane is NaN.
\<close>

theorem zforce_at_z0_counterexample:
  "zforce example_special (example_disk_nan (1/3) (1/16) True) (PyFloats (1 / 2 ^ 1030) 0)
     = Inr (Float64 NaN)"
proof -
  let ?s = "example_disk_nan (1/3) (1/16) True"
  have d: "de ?s" and l0: "length (de_j0_xs ?s) = length (de_j0_weights ?s)"
    by (simp_all add: example_disk_nan_def example_disk_def)
  have R: "(1::real) / 2 ^ 1030 \<noteq> 0" by simp
  show ?thesis
    using zforce_de_at_z0(1)[OF d R l0, of example_special]
    by (simp only: example_prefactor_tiny is_fin.simps if_False)
qed
section \<open>Reflection in the plane\<close>

lemma funs_even:
  "evaluate_fun s x R (- z) = evaluate_fun s x R z"
  "Rforce_fun s x R (- z) = Rforce_fun s x R z"
  "zforce_fun s x R (- z) = zforce_fun s x R z"
  "R2deriv_fun s x R (- z) = R2deriv_fun s x R z"
  "z2deriv_fun s x R (- z) = z2deriv_fun s x R z"
  "Rzderiv_fun s x R (- z) = Rzderiv_fun s x R z"
  by (simp_all add: evaluate_fun_def Rforce_fun_def zforce_fun_def R2deriv_fun_def
      z2deriv_fun_def Rzderiv_fun_def)

lemma evalInts_even:
  "evaluate_evalInt sp s R (- z) = evaluate_evalInt sp s R z"
  "zforce_evalInt sp s R (- z) = zforce_evalInt sp s R z"
  "z2deriv_evalInt sp s R (- z) = z2deriv_evalInt sp s R z"
  "Rzderiv_evalInt sp s R (- z) = Rzderiv_evalInt sp s R z"
  by (simp_all add: evaluate_evalInt_def zforce_evalInt_def z2deriv_evalInt_def
      Rzderiv_evalInt_def fun_eq_iff)

lemma weighted_nansum_even:
  assumes "\<And>x. f x R (- z) = f x R z"
  shows "weighted_nansum f xs ws (PyFloats R (- z)) = weighted_nansum f xs ws (PyFloats R z)"
  using assms by (simp add: weighted_nansum_def fun_on_def)

lemma bop_zero_or_nan:
  assumes "list_all zero_or_nan vs" "bop (*) vs ws = Inr ts"
  shows "list_all zero_or_nan ts"
proof -
  have "\<forall>p \<in> set ps. zero_or_nan (fst p) \<Longrightarrow>
          list_all zero_or_nan (map (\<lambda>(v, w). v * w) ps)" for ps :: "(fl \<times> fl) list"
    by (auto simp: list_all_iff intro!: zero_or_nan_times)
  moreover have "broadcast vs ws = Inr ps \<Longrightarrow> \<forall>p \<in> set ps. zero_or_nan (fst p)" for ps
    using assms(1)
    by (auto simp: broadcast_def list_all_iff split: if_splits dest: set_zip_leftD)
       (cases vs; simp)
  ultimately show ?thesis
    using assms(2) by (auto simp: bop_def bnd_def split: sum.splits)
qed

lemma weighted_nansum_at_0:
  assumes "\<And>x. zero_or_nan (f x R 0)"
  shows "weighted_nansum f xs ws (PyFloats R 0) = Inr (Fin 0) \<or>
         (\<exists>e. weighted_nansum f xs ws (PyFloats R 0) = Inl e)"
proof (cases "bop (*) (map (\<lambda>x. f x R 0) xs) ws")
  case (Inl e)
  then show ?thesis by (simp add: weighted_nansum_def fun_on_def bnd_def)
next
  case (Inr ts)
  have "list_all zero_or_nan (map (\<lambda>x. f x R 0) xs)"
    using assms by (simp add: list_all_iff)
  from bop_zero_or_nan[OF this Inr] have "nansum ts = Fin 0" by (rule nansum_zero_or_nan)
  with Inr show ?thesis by (simp add: weighted_nansum_def fun_on_def bnd_def)
qed

lemma fl_neg_neg [simp]: "- (- v) = (v::fl)"
  by (cases v) (simp_all add: uminus_fl_def)

lemma neg_zero_or_nan_id: "zero_or_nan v \<Longrightarrow> - v = v"
  by (cases v) simp_all

lemma zero_or_nan_scale: "zero_or_nan (v * Fin 0)"
  by (cases v) (simp_all add: times_fl_def inf_of_sign_def)

lemma odd_rule:
  assumes "R \<noteq> 0" "\<And>x. f x R (- z) = f x R z" "\<And>x. zero_or_nan (f x R 0)"
  shows "bnd (prefactor c 1 (PyFloats R (- z))) (\<lambda>c.
           bnd (weighted_nansum f xs ws (PyFloats R (- z))) (\<lambda>v.
             bnd (z_test (\<lambda>z. 0 < z) (PyFloats R (- z))) (\<lambda>pos.
               Inr (if pos then scale c v else negate (scale c v)))))
       = negated (bnd (prefactor c 1 (PyFloats R z)) (\<lambda>c.
           bnd (weighted_nansum f xs ws (PyFloats R z)) (\<lambda>v.
             bnd (z_test (\<lambda>z. 0 < z) (PyFloats R z)) (\<lambda>pos.
               Inr (if pos then scale c v else negate (scale c v))))))"
proof (cases "z = 0")
  case True
  from weighted_nansum_at_0[of f R xs ws, OF assms(3)] show ?thesis
    using assms(1) True neg_zero_or_nan_id[OF zero_or_nan_scale, of "ck_div c (Fin R)"]
    by (auto simp: prefactor_def py_pow_def z_test_def bnd_def negated_def)
next
  case False
  show ?thesis
    using assms(1) False weighted_nansum_even[of f R z xs ws, OF assms(2)]
    by (cases "weighted_nansum f xs ws (PyFloats R z)")
       (auto simp: prefactor_def py_pow_def z_test_def bnd_def negated_def)
qed

lemma zforce_de_odd:
  assumes "de s" "R \<noteq> 0"
  shows "zforce sp s (PyFloats R (- z)) = negated (zforce sp s (PyFloats R z))"
  using assms(1)
    odd_rule[where f="zforce_fun s" and R=R and z=z,
      OF assms(2) funs_even(3) zforce_fun_at_0[OF assms(2)]]
  by (simp add: zforce_def zforce_de_def)

lemma Rzderiv_de_odd:
  assumes "de s" "R \<noteq> 0"
  shows "Rzderiv sp s (PyFloats R (- z)) = negated (Rzderiv sp s (PyFloats R z))"
  using assms(1)
    odd_rule[where f="Rzderiv_fun s" and R=R and z=z,
      OF assms(2) funs_even(6) Rzderiv_fun_at_0[OF assms(2)]]
  by (simp add: Rzderiv_def Rzderiv_de_def)

text \<open>The legacy branches.\<close>

lemma pointwise_float:
  "pointwise f (PyFloats R z) = bnd (f R z) (\<lambda>v. Inr (Float64 v))"
  by (cases "f R z") (simp_all add: pointwise_def bnd_def shaped_def)

lemma np_sum_zero_or_nan: "list_all zero_or_nan vs \<Longrightarrow> zero_or_nan (np_sum vs)"
proof (induction vs)
  case Nil
  then show ?case by simp
next
  case (Cons v vs)
  then have "zero_or_nan v" "zero_or_nan (np_sum vs)" by simp_all
  then show ?case by (cases v; cases "np_sum vs") simp_all
qed

lemma zero_or_nan_times_right: "zero_or_nan e \<Longrightarrow> zero_or_nan (v * e)"
  by (cases v; cases e) (simp_all add: times_fl_def inf_of_sign_def)

lemma broadcast_snd:
  assumes "broadcast xs ys = Inr ps" "p \<in> set ps"
  shows "snd p \<in> set ys"
proof (cases "length xs = length ys")
  case True
  with assms show ?thesis by (cases p) (auto simp: broadcast_def dest: set_zip_rightD)
next
  case ne: False
  show ?thesis
  proof (cases "length ys = 1")
    case True
    with assms ne show ?thesis by (cases ys) (auto simp: broadcast_def)
  next
    case False
    with assms ne show ?thesis by (auto simp: broadcast_def split: if_splits)
  qed
qed

lemma weighted_sum_zero_or_nan:
  assumes "\<And>k. zero_or_nan (f k)" "weighted_sum weights ks f = Inr v"
  shows "zero_or_nan v"
proof -
  from assms(2) obtain ps where ps: "broadcast (map Fin weights) (map f ks) = Inr ps"
    and v: "v = np_sum (map (\<lambda>(a, b). a * b) ps)"
    by (auto simp: weighted_sum_def bop_def bnd_def split: sum.splits)
  have "zero_or_nan (snd p)" if "p \<in> set ps" for p
    using broadcast_snd[OF ps that] assms(1) by auto
  then have "list_all zero_or_nan (map (\<lambda>(a, b). a * b) ps)"
    by (auto simp: list_all_iff intro!: zero_or_nan_times_right)
  then show ?thesis unfolding v by (rule np_sum_zero_or_nan)
qed

lemma gl_sum_zero_or_nan:
  assumes "\<And>k. zero_or_nan (f k)" "gl_sum s zeros dzeros kmax R f = Inr v"
  shows "zero_or_nan v"
  using assms(2) weighted_sum_zero_or_nan[OF assms(1)]
  by (auto simp: gl_sum_def bnd_def split: sum.splits)

lemma evalInts_at_0:
  "zero_or_nan (zforce_evalInt sp s R 0 k)"
  "zero_or_nan (Rzderiv_evalInt sp s R 0 k)"
  by (auto simp: zforce_evalInt_def Rzderiv_evalInt_def
      intro!: zero_or_nan_divide_Fin zero_or_nan_scale)

text \<open>The sign flip of a value that may be an error.\<close>

lemma fl_neg_times: "- (Fin a * v) = Fin (- a) * v"
  by (cases v) (simp_all add: times_fl_def uminus_fl_def inf_of_sign_def)

lemma fl_neg_divide: "- (Fin a / Fin d) = Fin (- a) / Fin d"
  by (simp add: divide_fl_def uminus_fl_def inf_of_sign_def)

lemma odd_legacy:
  fixes z :: real
  assumes "\<And>k. zero_or_nan (f 0 k)" "f (- z) = f z" "z \<noteq> 0 \<Longrightarrow> P (- z) = (\<not> P z)"
    "cn = - cp"
  shows "bnd (bnd (gl_sum s zeros dzeros kmax R (f (- z)))
                (\<lambda>v. Inr (if P (- z) then Fin cn * v else Fin cp * v)))
             (\<lambda>v. Inr (Float64 v))
       = negated (bnd (bnd (gl_sum s zeros dzeros kmax R (f z))
                (\<lambda>v. Inr (if P z then Fin cn * v else Fin cp * v)))
             (\<lambda>v. Inr (Float64 v)))"
proof (cases "gl_sum s zeros dzeros kmax R (f z)")
  case (Inl e)
  then show ?thesis using assms(2) by (simp add: bnd_def negated_def)
next
  case (Inr v)
  show ?thesis
  proof (cases "z = 0")
    case True
    with Inr have "zero_or_nan v" using gl_sum_zero_or_nan[OF assms(1)] by simp
    then have "zero_or_nan (Fin cp * v)" "zero_or_nan (Fin cn * v)"
      by (simp_all add: zero_or_nan_times_right)
    then show ?thesis
      using Inr True by (simp add: bnd_def negated_def neg_zero_or_nan_id)
  next
    case False
    have "- (Fin cp * v) = Fin cn * v" "- (Fin cn * v) = Fin cp * v"
      using fl_neg_times[of cp v] fl_neg_times[of cn v] assms(4) by simp_all
    then show ?thesis
      using Inr assms(2) assms(3)[OF False]
      by (auto simp: bnd_def negated_def)
  qed
qed

lemma kepler_symmetries:
  "kp_call (KeplerPotential M) R (- z) = kp_call (KeplerPotential M) R z"
  "kp_z2deriv (KeplerPotential M) R (- z) = kp_z2deriv (KeplerPotential M) R z"
  "kp_zforce (KeplerPotential M) R (- z) = - kp_zforce (KeplerPotential M) R z"
  "kp_Rzderiv (KeplerPotential M) R (- z) = - kp_Rzderiv (KeplerPotential M) R z"
  by (simp_all add: KeplerPotential_def fl_neg_divide)

lemma zforce_legacy_odd:
  assumes "\<not> de s" "kp s = KeplerPotential M"
  shows "zforce sp s (PyFloats R (- z)) = negated (zforce sp s (PyFloats R z))"
proof (cases "R > 16 * hr s \<or> R > 6")
  case True
  then show ?thesis
    using assms by (simp add: zforce_def pointwise_float zforce_legacy1_def bnd_def
        negated_def kepler_symmetries)
next
  case False
  have e: "zforce_evalInt sp s R (- z) = zforce_evalInt sp s R z"
    by (simp add: fun_eq_iff evalInts_even)
  have p: "z \<noteq> 0 \<Longrightarrow> (0 < - z) = (\<not> 0 < z)" by auto
  have c: "- 2 * pi * alpha s * beta s = - (2 * pi * alpha s * beta s)" by simp
  from odd_legacy[where f="zforce_evalInt sp s R" and P="\<lambda>z. 0 < z" and z=z
        and cn="- 2 * pi * alpha s * beta s" and cp="2 * pi * alpha s * beta s",
        OF evalInts_at_0(1) e p c]
  show ?thesis
    using assms(1) False
    by (simp add: zforce_def pointwise_float zforce_legacy1_def)
qed

lemma Rzderiv_legacy_odd:
  assumes "\<not> de s" "kp s = KeplerPotential M"
  shows "Rzderiv sp s (PyFloats R (- z)) = negated (Rzderiv sp s (PyFloats R z))"
proof (cases "R > 6")
  case True
  then show ?thesis
    using assms by (simp add: Rzderiv_def pointwise_float Rzderiv_legacy1_def bnd_def
        negated_def kepler_symmetries)
next
  case False
  have e: "Rzderiv_evalInt sp s R (- z) = Rzderiv_evalInt sp s R z"
    by (simp add: fun_eq_iff evalInts_even)
  show ?thesis
  proof (cases "z = 0")
    case True
    have "bnd (bnd (gl_sum s (j1zeros s) (dj1zeros s) (2 * kmaxFac s * beta s) R
                      (Rzderiv_evalInt sp s R 0))
                 (\<lambda>v. Inr (Fin (- 2 * pi * alpha s * beta s) * v)))
              (\<lambda>v. Inr (Float64 v))
          = negated (bnd (bnd (gl_sum s (j1zeros s) (dj1zeros s) (2 * kmaxFac s * beta s) R
                      (Rzderiv_evalInt sp s R 0))
                 (\<lambda>v. Inr (Fin (- 2 * pi * alpha s * beta s) * v)))
              (\<lambda>v. Inr (Float64 v)))"
    proof (cases "gl_sum s (j1zeros s) (dj1zeros s) (2 * kmaxFac s * beta s) R
                      (Rzderiv_evalInt sp s R 0)")
      case (Inl e)
      then show ?thesis by (simp add: bnd_def negated_def)
    next
      case (Inr v)
      then have "zero_or_nan v" using gl_sum_zero_or_nan[OF evalInts_at_0(2)] by simp
      then have "zero_or_nan (Fin (- 2 * pi * alpha s * beta s) * v)"
        by (rule zero_or_nan_times_right)
      then show ?thesis using Inr by (simp add: bnd_def negated_def neg_zero_or_nan_id)
    qed
    then show ?thesis
      using assms(1) False True
      by (simp add: Rzderiv_def pointwise_float Rzderiv_legacy1_def)
  next
    case nz: False
    have p: "z \<noteq> 0 \<Longrightarrow> (0 \<le> - z) = (\<not> 0 \<le> z)" by auto
    have c: "- 2 * pi * alpha s * beta s = - (2 * pi * alpha s * beta s)" by simp
    from odd_legacy[where f="Rzderiv_evalInt sp s R" and P="\<lambda>z. 0 \<le> z" and z=z
        and cn="- 2 * pi * alpha s * beta s" and cp="2 * pi * alpha s * beta s",
        OF evalInts_at_0(2) e p c]
    show ?thesis
      using assms(1) False
      by (simp add: Rzderiv_def pointwise_float Rzderiv_legacy1_def)
  qed
qed

text \<open>A \<open>numpy.float64\<close> radius other than zero takes the path of a Python float.\<close>

lemma np_float_as_py:
  assumes "R \<noteq> 0"
  shows "evaluate sp s (NpFloats R z) = evaluate sp s (PyFloats R z)"
    "dens s (NpFloats R z) = dens s (PyFloats R z)"
    "surfdens s (NpFloats R z) = surfdens s (PyFloats R z)"
    "z2deriv sp s (NpFloats R z) = z2deriv sp s (PyFloats R z)"
    "zforce sp s (NpFloats R z) = zforce sp s (PyFloats R z)"
    "Rzderiv sp s (NpFloats R z) = Rzderiv sp s (PyFloats R z)"
  using assms
  by (simp_all add: evaluate_def evaluate_de_def shaped_def pointwise_def
      dens_def surfdens_def elementwise_def
      z2deriv_def z2deriv_de_def zforce_def zforce_de_def Rzderiv_def Rzderiv_de_def
      prefactor_def py_pow_def np_pow_def weighted_nansum_def fun_on_def z_test_def bnd_def)

lemma reflection_py:
  assumes "R \<noteq> 0" "kp s = KeplerPotential M"
  shows "evaluate sp s (PyFloats R (- z)) = evaluate sp s (PyFloats R z)"
    "dens s (PyFloats R (- z)) = dens s (PyFloats R z)"
    "surfdens s (PyFloats R (- z)) = surfdens s (PyFloats R z)"
    "z2deriv sp s (PyFloats R (- z)) = z2deriv sp s (PyFloats R z)"
    "zforce sp s (PyFloats R (- z)) = negated (zforce sp s (PyFloats R z))"
    "Rzderiv sp s (PyFloats R (- z)) = negated (Rzderiv sp s (PyFloats R z))"
proof -
  show "evaluate sp s (PyFloats R (- z)) = evaluate sp s (PyFloats R z)"
    using assms(2)
    by (simp add: evaluate_def evaluate_de_def funs_even shaped_def pointwise_float
        evaluate_legacy1_def evalInts_even kepler_symmetries)
  show "dens s (PyFloats R (- z)) = dens s (PyFloats R z)"
    by (simp add: dens_def elementwise_def dens1_def)
  show "surfdens s (PyFloats R (- z)) = surfdens s (PyFloats R z)"
    by (simp add: surfdens_def elementwise_def surfdens1_def)
  show "z2deriv sp s (PyFloats R (- z)) = z2deriv sp s (PyFloats R z)"
    using assms(2) weighted_nansum_even[of "z2deriv_fun s" R z, OF funs_even(5)]
    by (simp add: z2deriv_def z2deriv_de_def prefactor_def pointwise_float
        z2deriv_legacy1_def evalInts_even kepler_symmetries)
  show "zforce sp s (PyFloats R (- z)) = negated (zforce sp s (PyFloats R z))"
    using zforce_de_odd[OF _ assms(1)] zforce_legacy_odd[OF _ assms(2)]
    by (cases "de s") simp_all
  show "Rzderiv sp s (PyFloats R (- z)) = negated (Rzderiv sp s (PyFloats R z))"
    using Rzderiv_de_odd[OF _ assms(1)] Rzderiv_legacy_odd[OF _ assms(2)]
    by (cases "de s") simp_all
qed

text \<open>
  Claim C7, as amended. For every \<open>R > 0\<close> and every \<open>z\<close>, given as Python floats or as
  \<open>numpy.float64\<close>, under either strategy (the fallback of the legacy one being the
  point mass), under the reflection \<open>z -> -z\<close> the potential, the density, the surface
  density and \<open>secondDerivZZ\<close> are unchanged, while \<open>verticalForce\<close> and
  \<open>secondDerivRZ\<close> flip sign (an error is the same error on both sides). The vertical
  force is odd, not even.
\<close>

theorem reflection:
  assumes "0 < R" "kp s = KeplerPotential M" "mk = PyFloats \<or> mk = NpFloats"
  shows "evaluate sp s (mk R (- z)) = evaluate sp s (mk R z) \<and>
         dens s (mk R (- z)) = dens s (mk R z) \<and>
         surfdens s (mk R (- z)) = surfdens s (mk R z) \<and>
         z2deriv sp s (mk R (- z)) = z2deriv sp s (mk R z) \<and>
         zforce sp s (mk R (- z)) = negated (zforce sp s (mk R z)) \<and>
         Rzderiv sp s (mk R (- z)) = negated (Rzderiv sp s (mk R z))"
proof -
  have R: "R \<noteq> 0" using assms(1) by simp
  from assms(3) show ?thesis
  proof
    assume "mk = PyFloats"
    then show ?thesis using reflection_py[OF R assms(2)] by simp
  next
    assume "mk = NpFloats"
    then show ?thesis
      using reflection_py[OF R assms(2)] by (simp add: np_float_as_py[OF R])
  qed
qed

theorem reflection_witness:
  "(0::real) < 1 \<and>
   kp (example_disk (1/3) (1/16) False) = KeplerPotential (4 * pi * (1/3)\<^sup>2 * (1/16)) \<and>
   evaluate example_special (example_disk (1/3) (1/16) False) (NpFloats 1 (- 2))
     = evaluate example_special (example_disk (1/3) (1/16) False) (NpFloats 1 2) \<and>
   dens (example_disk (1/3) (1/16) False) (NpFloats 1 (- 2))
     = dens (example_disk (1/3) (1/16) False) (NpFloats 1 2) \<and>
   surfdens (example_disk (1/3) (1/16) False) (NpFloats 1 (- 2))
     = surfdens (example_disk (1/3) (1/16) False) (NpFloats 1 2) \<and>
   z2deriv example_special (example_disk (1/3) (1/16) False) (NpFloats 1 (- 2))
     = z2deriv example_special (example_disk (1/3) (1/16) False) (NpFloats 1 2) \<and>
   zforce example_special (example_disk (1/3) (1/16) False) (NpFloats 1 (- 2))
     = negated (zforce example_special (example_disk (1/3) (1/16) False) (NpFloats 1 2)) \<and>
   Rzderiv example_special (example_disk (1/3) (1/16) False) (NpFloats 1 (- 2))
     = negated (Rzderiv example_special (example_disk (1/3) (1/16) False) (NpFloats 1 2))"
proof -
  have k: "kp (example_disk (1/3) (1/16) False) = KeplerPotential (4 * pi * (1/3)\<^sup>2 * (1/16))"
    by (simp add: example_disk_def)
  have R: "(0::real) < 1" by simp
  have m: "NpFloats = PyFloats \<or> NpFloats = NpFloats" by simp
  show ?thesis
    using reflection[OF R k m, of example_special 2] k by simp
qed

text \<open>The claim as the spec has it calls the vertical force even in \<open>z\<close>. On the example
  disk the terms of the sum at \<open>(1, 1)\<close> are positive, so the force there is a negative
  number and the force at \<open>(1, -1)\<close> is its opposite, not the same.\<close>

lemma is_pos_times: "is_pos a \<Longrightarrow> is_pos b \<Longrightarrow> is_pos (a * b)"
  by (cases a; cases b) simp_all

lemma is_pos_divide: "is_pos a \<Longrightarrow> is_pos b \<Longrightarrow> is_pos (a / b)"
  by (cases a; cases b) simp_all

lemma is_pos_conv: "is_pos v \<longleftrightarrow> (\<exists>r>0. v = Fin r)"
  by (cases v) simp_all

lemma zforce_fun_pos:
  assumes "0 < R" "0 < x" "x / R < beta s" "z \<noteq> 0"
  shows "is_pos (zforce_fun s x R z)"
proof -
  have R: "R \<noteq> 0" and q: "0 < x / R" using assms by simp_all
  have A: "0 < (alpha s)\<^sup>2 + (x / R)\<^sup>2" using node_facts[OF assms(1,2)] by simp
  have "(x / R)\<^sup>2 < (beta s)\<^sup>2" using q assms(3) by (simp add: power_strict_mono)
  then have D: "is_pos (Fin ((beta s)\<^sup>2) - fl_pow2 (Fin x / Fin R))" using R by simp
  have "x / R * \<bar>z\<bar> < beta s * \<bar>z\<bar>"
    using assms(3,4) by (intro mult_strict_right_mono) simp_all
  then have "- beta s * \<bar>z\<bar> < - x / R * \<bar>z\<bar>" by simp
  then have E: "is_pos (fl_exp (Fin (- x) / Fin R * Fin \<bar>z\<bar>) - fl_exp (Fin (- beta s * \<bar>z\<bar>)))"
    using R by simp
  have "Fin ((alpha s)\<^sup>2) + fl_pow2 (Fin x / Fin R) = Fin ((alpha s)\<^sup>2 + (x / R)\<^sup>2)"
    using R by simp
  moreover have "0 < ((alpha s)\<^sup>2 + (x / R)\<^sup>2) powr (- 3 / 2)"
    unfolding powr_gt_zero using A by linarith
  then have "is_pos (Fin (((alpha s)\<^sup>2 + (x / R)\<^sup>2) powr (- 3 / 2)))"
    by (simp only: is_pos.simps)
  ultimately have P: "is_pos (fl_pow_m15 (Fin ((alpha s)\<^sup>2) + fl_pow2 (Fin x / Fin R)))"
    by (simp only: fl_pow_m15_pos[OF A])
  have X: "is_pos (Fin x)" "is_pos (Fin R)" using assms by simp_all
  show ?thesis
    unfolding zforce_fun_def
    by (intro is_pos_divide is_pos_times P X E D)
qed

lemma nansum_pos: "list_all is_pos vs \<Longrightarrow> vs \<noteq> [] \<Longrightarrow> is_pos (nansum vs)"
proof (induction vs)
  case Nil
  then show ?case by simp
next
  case (Cons v vs)
  then obtain r where v: "v = Fin r" "0 < r" by (auto simp: is_pos_conv)
  show ?case
  proof (cases "vs = []")
    case True
    with v show ?thesis by simp
  next
    case False
    with Cons have "is_pos (nansum vs)" by simp
    then obtain r' where "nansum vs = Fin r'" "0 < r'" by (auto simp: is_pos_conv)
    with v show ?thesis by simp
  qed
qed

lemma weighted_nansum_pos:
  assumes "\<forall>x \<in> set xs. is_pos (f x R z)" "list_all is_pos ws" "length xs = length ws" "xs \<noteq> []"
  shows "\<exists>r>0. weighted_nansum f xs ws (PyFloats R z) = Inr (Fin r)"
proof -
  let ?ts = "map (\<lambda>(v, w). v * w) (zip (map (\<lambda>x. f x R z) xs) ws)"
  have "list_all is_pos ?ts"
    using assms(1,2)
    by (auto simp: list_all_iff zip_map1 intro!: is_pos_times dest: set_zip_leftD set_zip_rightD)
  moreover have "?ts \<noteq> []" using assms(3,4) by (cases xs; cases ws) simp_all
  ultimately have "is_pos (nansum ?ts)" by (rule nansum_pos)
  then obtain r where "0 < r" "nansum ?ts = Fin r" by (auto simp: is_pos_conv)
  then show ?thesis
    using assms(3) by (auto simp: weighted_nansum_def fun_on_def bop_def bnd_def broadcast_def)
qed

lemma example_disk_prefactor_at_1:
  "ck_div (c_alpha_beta (example_disk (1/3) (1/16) True)) (Fin 1) = Fin (- 192 * pi)"
proof -
  have "c_alpha_beta (example_disk (1/3) (1/16) True)
          = c_alpha_beta (example_disk_nan (1/3) (1/16) True)"
    by (simp add: c_alpha_beta_def c_alpha_def example_disk_nan_def)
  then show ?thesis by (simp only: example_prefactor_at_1)
qed

theorem zforce_even_counterexample:
  "zforce example_special (example_disk (1/3) (1/16) True) (PyFloats 1 (- 1))
     \<noteq> zforce example_special (example_disk (1/3) (1/16) True) (PyFloats 1 1)"
proof -
  let ?s = "example_disk (1/3) (1/16) True"
  have d: "de ?s" by (simp add: example_disk_def)
  have "\<forall>x \<in> set (de_j0_xs ?s). is_pos (zforce_fun ?s x 1 1)"
    by (auto intro!: zforce_fun_pos simp: example_disk_def)
  moreover have "list_all is_pos (de_j0_weights ?s)" "length (de_j0_xs ?s) = length (de_j0_weights ?s)"
    "de_j0_xs ?s \<noteq> []" by (simp_all add: example_disk_def)
  ultimately obtain r where r: "0 < r"
    "weighted_nansum (zforce_fun ?s) (de_j0_xs ?s) (de_j0_weights ?s) (PyFloats 1 1) = Inr (Fin r)"
    using weighted_nansum_pos by blast
  have v: "zforce example_special ?s (PyFloats 1 1) = Inr (Float64 (Fin (- 192 * pi * r)))"
    using d r(2)
    by (simp add: zforce_def zforce_de_def prefactor_def py_pow_def z_test_def bnd_def
        example_disk_prefactor_at_1)
  have "- 192 * pi * r \<noteq> 0" using r(1) by simp
  then show ?thesis
    using zforce_de_odd[OF d, of 1 example_special 1] v
    by (simp add: negated_def)
qed
section \<open>Calls with a non-positive radius\<close>

lemma call_state: "snd (call sp qty s q) = s"
  by (cases qty) (simp_all add: call_def)

lemma elementwise_returns: "\<exists>v. elementwise f q = Inr v"
  by (cases q) (simp_all add: elementwise_def)

lemma dens_returns: "\<exists>v. fst (call sp Density s q) = Inr v"
  using elementwise_returns[of "dens1 s" q] by (simp add: call_def dens_def)

lemma surfdens_returns: "\<exists>v. fst (call sp SurfaceDensity s q) = Inr v"
  using elementwise_returns[of "surfdens1 s" q] by (simp add: call_def surfdens_def)

lemma max_float_nonneg: "0 \<le> max_float"
proof -
  have "(0::real) \<le> 2 ^ 1023" by (rule zero_le_power) simp
  then show ?thesis using max_float_ge by linarith
qed

lemma prefactor_at_0:
  assumes "p \<in> {1, 2, 3}"
  shows "prefactor c p (PyFloats 0 z) = Inl ZeroDivisionError"
proof -
  have "py_pow 0 p = Inr 0"
    using assms max_float_nonneg min_float_bounds(1) by (auto simp: py_pow_def)
  then show ?thesis by (simp add: prefactor_def bnd_def)
qed

lemma de_at_0:
  assumes "de s"
  shows "fst (call sp RadialForce s (PyFloats 0 z)) = Inl ZeroDivisionError"
    "fst (call sp VerticalForce s (PyFloats 0 z)) = Inl ZeroDivisionError"
    "fst (call sp SecondDerivRR s (PyFloats 0 z)) = Inl ZeroDivisionError"
    "fst (call sp SecondDerivZZ s (PyFloats 0 z)) = Inl ZeroDivisionError"
    "fst (call sp SecondDerivRZ s (PyFloats 0 z)) = Inl ZeroDivisionError"
  using assms
  by (simp_all add: call_def Rforce_def Rforce_de_def zforce_def zforce_de_def
      R2deriv_def R2deriv_de_def z2deriv_def z2deriv_de_def Rzderiv_def Rzderiv_de_def
      prefactor_at_0 bnd_def)

text \<open>
  Claim C4, as amended. No evaluation call tests the sign of \<open>R\<close>, and none changes the
  model's state, whatever the query and whether or not the call fails. For every query
  (any \<open>R\<close>, also \<open>R \<le> 0\<close>, floats or arrays) the density and the surface density raise
  nothing and return a value. Under the DE strategy a Python-float \<open>R = 0\<close> makes the
  radial force, the vertical force and the three second derivatives fail with
  \<open>ZeroDivisionError\<close>, raised by the division in the prefactor.
\<close>

theorem no_domain_check:
  "snd (call sp qty s q) = s \<and>
   (\<exists>v. fst (call sp Density s q) = Inr v) \<and>
   (\<exists>v. fst (call sp SurfaceDensity s q) = Inr v) \<and>
   (de s \<longrightarrow>
      (\<forall>qty' \<in> {RadialForce, VerticalForce, SecondDerivRR, SecondDerivZZ, SecondDerivRZ}.
         fst (call sp qty' s (PyFloats 0 z)) = Inl ZeroDivisionError))"
  using call_state[of sp qty s q] dens_returns[of sp s q] surfdens_returns[of sp s q]
    de_at_0[of s sp z]
  by simp

theorem no_domain_check_witness:
  "de (example_disk (1/3) (1/16) True) \<and>
   snd (call example_special RadialForce (example_disk (1/3) (1/16) True)
          (ArrayFloat [- 1, 0] 2))
     = example_disk (1/3) (1/16) True \<and>
   (\<exists>v. fst (call example_special Density (example_disk (1/3) (1/16) True)
                (ArrayFloat [- 1, 0] 2)) = Inr v) \<and>
   (\<exists>v. fst (call example_special SurfaceDensity (example_disk (1/3) (1/16) True)
                (ArrayFloat [- 1, 0] 2)) = Inr v) \<and>
   fst (call example_special RadialForce (example_disk (1/3) (1/16) True) (PyFloats 0 2))
     = Inl ZeroDivisionError \<and>
   fst (call example_special VerticalForce (example_disk (1/3) (1/16) True) (PyFloats 0 2))
     = Inl ZeroDivisionError \<and>
   fst (call example_special SecondDerivRR (example_disk (1/3) (1/16) True) (PyFloats 0 2))
     = Inl ZeroDivisionError \<and>
   fst (call example_special SecondDerivZZ (example_disk (1/3) (1/16) True) (PyFloats 0 2))
     = Inl ZeroDivisionError \<and>
   fst (call example_special SecondDerivRZ (example_disk (1/3) (1/16) True) (PyFloats 0 2))
     = Inl ZeroDivisionError"
proof -
  let ?s = "example_disk (1/3) (1/16) True"
  have d: "de ?s" by (simp add: example_disk_def)
  show ?thesis
    using no_domain_check[of example_special RadialForce ?s "ArrayFloat [- 1, 0] 2" 2] d
    by simp
qed

text \<open>
  Claim C4 as stated fails: the density call at \<open>R = -1\<close>, \<open>z = 0\<close> returns
  \<open>exp 3\<close> on the disk with \<open>hr = 1/3\<close>; it raises nothing.
\<close>

theorem domain_error_counterexample:
  "fst (call example_special Density (example_disk (1/3) (1/16) True) (PyFloats (- 1) 0))
     = Inr (Float64 (Fin (exp 3)))"
  by (simp add: call_def dens_def elementwise_def dens1_def example_disk_def)
section \<open>The second radial derivative\<close>

lemma R2deriv_fun_regular:
  assumes "R \<noteq> 0" "0 < (alpha s)\<^sup>2 + (x / R)\<^sup>2" "\<not> singular s R x"
  shows "R2deriv_fun s x R z = Fin (R2_kernel s R z x)"
  using assms
  by (simp add: R2deriv_fun_def R2_kernel_def pot_kernel_def singular_def
      del: fl_pow_m15.simps add: fl_pow_m15_pos)

lemma R2deriv_fun_singular:
  assumes "0 < R" "0 < x" "0 < beta s" "singular s R x"
  shows "R2deriv_fun s x R z = NaN"
  using node_facts[OF assms(1,2), where a="alpha s"] singular_eq[OF assms]
  by (simp add: R2deriv_fun_def inf_of_sign_def del: fl_pow_m15.simps add: fl_pow_m15_pos)

lemma fl_minus_NaN [simp]: "a - NaN = NaN" "NaN - a = NaN"
  by (cases a; simp add: minus_fl_def)+

lemma fl_times_NaN [simp]: "a * NaN = NaN" "NaN * a = NaN"
  by (cases a; simp add: times_fl_def)+

lemma fl_divide_NaN [simp]: "NaN / a = NaN"
  by (simp add: divide_fl_def)

text \<open>One half of a paired term: NaN at a singular node or under a NaN weight, finite
  otherwise.\<close>

lemma R2deriv_half:
  assumes "0 < R" "0 < beta s" "0 < x" "not_inf w"
  shows "(\<not> (\<not> singular s R x \<and> is_fin w) \<longrightarrow>
            R2deriv_fun s x R z * w = NaN \<and> R2deriv_fun s x R z / Fin x * w = NaN) \<and>
         (\<not> singular s R x \<and> is_fin w \<longrightarrow>
            R2deriv_fun s x R z * w = Fin (fin_val w * R2_kernel s R z x) \<and>
            R2deriv_fun s x R z / Fin x * w = Fin (fin_val w * R2_kernel s R z x / x))"
proof (cases "singular s R x")
  case True
  then show ?thesis using R2deriv_fun_singular[OF assms(1,3,2)] by simp
next
  case False
  have r: "R2deriv_fun s x R z = Fin (R2_kernel s R z x)"
    using node_facts[OF assms(1,3), where a="alpha s"] False
    by (intro R2deriv_fun_regular) simp_all
  have x: "x \<noteq> 0" using assms(3) by simp
  show ?thesis
  proof (cases "is_fin w")
    case True
    then obtain v where w: "w = Fin v" by (cases w) simp_all
    show ?thesis using r x False w by (simp add: mult.commute)
  next
    case nf: False
    then have "w = NaN" using not_inf_cases[OF assms(4)] by simp
    then show ?thesis using nf by simp
  qed
qed

lemma R2deriv_term:
  assumes "0 < R" "0 < beta s" "0 < x0" "0 < x1" "not_inf w0" "not_inf w1"
  shows "(\<not> ((\<not> singular s R x0 \<and> is_fin w0) \<and> (\<not> singular s R x1 \<and> is_fin w1)) \<longrightarrow>
            R2deriv_fun s x0 R z * w0 - R2deriv_fun s x1 R z / Fin x1 * w1 = NaN) \<and>
         ((\<not> singular s R x0 \<and> is_fin w0) \<and> (\<not> singular s R x1 \<and> is_fin w1) \<longrightarrow>
            R2deriv_fun s x0 R z * w0 - R2deriv_fun s x1 R z / Fin x1 * w1
              = Fin (fin_val w0 * R2_kernel s R z x0 - fin_val w1 * R2_kernel s R z x1 / x1))"
proof -
  note h0 = R2deriv_half[OF assms(1,2,3,5), of z]
  note h1 = R2deriv_half[OF assms(1,2,4,6), of z]
  show ?thesis
  proof (cases "\<not> singular s R x0 \<and> is_fin w0")
    case False
    then show ?thesis using h0 by auto
  next
    case k0: True
    show ?thesis
    proof (cases "\<not> singular s R x1 \<and> is_fin w1")
      case False
      then show ?thesis using h1 by auto
    next
      case True
      then show ?thesis using k0 h0 h1 by simp
    qed
  qed
qed

lemma paired_list:
  assumes "length xs0 = n" "length ws0 = n" "length xs1 = n" "length ws1 = n"
  shows "map (\<lambda>(v, w). v - w)
           (zip (map (\<lambda>(v, w). v * w) (zip (map f xs0) ws0))
                (map (\<lambda>(v, w). v * w)
                   (zip (map (\<lambda>(v, w). v / w) (zip (map f xs1) (map Fin xs1))) ws1)))
         = map (\<lambda>((x0, w0), (x1, w1)). f x0 * w0 - f x1 / Fin x1 * w1)
             (zip (zip xs0 ws0) (zip xs1 ws1))"
  using assms by (intro nth_equalityI) simp_all

lemma R2deriv_de_sum:
  assumes "0 < beta s" "0 < R" "list_all (\<lambda>x. 0 < x) xs0" "list_all (\<lambda>x. 0 < x) xs1"
    "list_all not_inf ws0" "list_all not_inf ws1"
  shows "nansum (map (\<lambda>p. R2deriv_fun s (fst (fst p)) R z * snd (fst p)
                          - R2deriv_fun s (fst (snd p)) R z / Fin (fst (snd p)) * snd (snd p))
                 (zip (zip xs0 ws0) (zip xs1 ws1)))
         = Fin (sum_list (map (\<lambda>p. fin_val (snd (fst p)) * R2_kernel s R z (fst (fst p))
                                 - fin_val (snd (snd p)) * R2_kernel s R z (fst (snd p))
                                     / fst (snd p))
                  (filter (\<lambda>p. (\<not> singular s R (fst (fst p)) \<and> is_fin (snd (fst p))) \<and>
                                (\<not> singular s R (fst (snd p)) \<and> is_fin (snd (snd p))))
                    (zip (zip xs0 ws0) (zip xs1 ws1)))))"
proof (rule nansum_terms_keep, clarify)
  fix x0 w0 x1 w1 assume "((x0, w0), (x1, w1)) \<in> set (zip (zip xs0 ws0) (zip xs1 ws1))"
  then have "(x0, w0) \<in> set (zip xs0 ws0)" "(x1, w1) \<in> set (zip xs1 ws1)"
    by (auto dest: set_zip_leftD set_zip_rightD)
  from in_zip_tables[OF assms(3,5) this(1)] in_zip_tables[OF assms(4,6) this(2)]
  have x: "0 < x0" "0 < x1" and w: "not_inf w0" "not_inf w1" by simp_all
  show "(\<not> ((\<not> singular s R (fst (fst ((x0, w0), (x1, w1)))) \<and>
               is_fin (snd (fst ((x0, w0), (x1, w1))))) \<and>
              (\<not> singular s R (fst (snd ((x0, w0), (x1, w1)))) \<and>
               is_fin (snd (snd ((x0, w0), (x1, w1)))))) \<longrightarrow>
         R2deriv_fun s (fst (fst ((x0, w0), (x1, w1)))) R z * snd (fst ((x0, w0), (x1, w1)))
           - R2deriv_fun s (fst (snd ((x0, w0), (x1, w1)))) R z
               / Fin (fst (snd ((x0, w0), (x1, w1)))) * snd (snd ((x0, w0), (x1, w1))) = NaN) \<and>
        ((\<not> singular s R (fst (fst ((x0, w0), (x1, w1)))) \<and>
               is_fin (snd (fst ((x0, w0), (x1, w1))))) \<and>
              (\<not> singular s R (fst (snd ((x0, w0), (x1, w1)))) \<and>
               is_fin (snd (snd ((x0, w0), (x1, w1))))) \<longrightarrow>
         R2deriv_fun s (fst (fst ((x0, w0), (x1, w1)))) R z * snd (fst ((x0, w0), (x1, w1)))
           - R2deriv_fun s (fst (snd ((x0, w0), (x1, w1)))) R z
               / Fin (fst (snd ((x0, w0), (x1, w1)))) * snd (snd ((x0, w0), (x1, w1)))
         = Fin (fin_val (snd (fst ((x0, w0), (x1, w1))))
                  * R2_kernel s R z (fst (fst ((x0, w0), (x1, w1))))
                - fin_val (snd (snd ((x0, w0), (x1, w1))))
                  * R2_kernel s R z (fst (snd ((x0, w0), (x1, w1))))
                  / fst (snd ((x0, w0), (x1, w1)))))"
    unfolding fst_conv snd_conv by (rule R2deriv_term[OF assms(2,1) x w])
qed

lemma pow3_in_range:
  assumes "min_float / 2 < R ^ 3" "R ^ 3 \<le> max_float"
  shows "py_pow R 3 = Inr (R ^ 3)" "np_pow R 3 = Fin (R ^ 3)" "R ^ 3 \<noteq> 0"
proof -
  have p: "0 < R ^ 3" using assms(1) min_float_bounds(1) by linarith
  then have a: "\<bar>R ^ 3\<bar> = R ^ 3" by simp
  show "py_pow R 3 = Inr (R ^ 3)" using assms by (simp add: py_pow_def a)
  have n: "\<not> R ^ 3 < - max_float" using p max_float_nonneg by linarith
  show "np_pow R 3 = Fin (R ^ 3)"
    using assms n by (simp add: np_pow_def flt_def a)
  show "R ^ 3 \<noteq> 0" using p by simp
qed

lemma R2deriv_de_value:
  assumes "de s" "shape_ok s" "de_tables_ok s" "0 < R"
    "min_float / 2 < R ^ 3" "R ^ 3 \<le> max_float"
  shows "R2deriv sp s (PyFloats R z) = Inr (Float64 (paired_R2deriv s R z))"
    "R2deriv sp s (NpFloats R z) = Inr (Float64 (paired_R2deriv s R z))"
proof -
  from assms(2) have b: "0 < beta s" by (simp add: shape_ok_def)
  from assms(3) have l: "length (de_j0_xs s) = length (de_j0_xs s)"
    "length (de_j0_weights s) = length (de_j0_xs s)"
    "length (de_j1_xs s) = length (de_j0_xs s)" "length (de_j1_weights s) = length (de_j0_xs s)"
    and p: "list_all (\<lambda>x. 0 < x) (de_j0_xs s)" "list_all (\<lambda>x. 0 < x) (de_j1_xs s)"
    and f: "list_all not_inf (de_j0_weights s)" "list_all not_inf (de_j1_weights s)"
    by (simp_all add: de_tables_ok_def)
  note pl = paired_list[OF l, of "\<lambda>x. R2deriv_fun s x R z", unfolded case_prod_unfold]
  note sm = R2deriv_de_sum[OF b assms(4) p f, of z]
  note pw = pow3_in_range[OF assms(5,6)]
  show "R2deriv sp s (PyFloats R z) = Inr (Float64 (paired_R2deriv s R z))"
    using assms(1) l pw sm
    by (simp add: R2deriv_def R2deriv_de_def prefactor_def fun_on_def bop_def bnd_def
        broadcast_def pl paired_R2deriv_def paired_R2deriv_sum_def R2_prefactor_def
        case_prod_unfold)
  show "R2deriv sp s (NpFloats R z) = Inr (Float64 (paired_R2deriv s R z))"
    using assms(1) l pw sm
    by (simp add: R2deriv_def R2deriv_de_def prefactor_def fun_on_def bop_def bnd_def
        broadcast_def pl paired_R2deriv_def paired_R2deriv_sum_def R2_prefactor_def
        case_prod_unfold)
qed


lemma one_in_range: "min_float / 2 < (1::real) ^ 3" "(1::real) ^ 3 \<le> max_float"
proof -
  show "min_float / 2 < (1::real) ^ 3" using min_float_bounds by simp
  have "(1::real) \<le> 2 ^ 1023" by (rule one_le_power) simp
  then show "(1::real) ^ 3 \<le> max_float" using max_float_ge by simp
qed


text \<open>
  The claim as the spec has it subtracts one sum from the other. On the example disk
  with \<open>hz = 250000/723\<close>, so that \<open>beta = 0.002892\<close> is the first order-0 node, at
  \<open>R = 1\<close>, \<open>z = 0\<close> the first order-0 term is not finite; the code drops the first
  order-1 term with it, which the difference of the two sums keeps.
\<close>

lemma example_R2_prefactor:
  "R2_prefactor (example_disk (1/3) (250000/723) True) 1 = Fin (12 * pi)"
proof -
  have a: "flt (12 * pi) = Fin (12 * pi)"
  proof (rule flt_in_range)
    show "1 \<le> \<bar>12 * pi\<bar>" using pi_bounds by simp
    have "\<bar>12 * pi\<bar> \<le> 2 ^ 6" using pi_bounds by simp
    also have "(2::real) ^ 6 \<le> 2 ^ 1023" by (rule power_increasing) simp_all
    finally show "\<bar>12 * pi\<bar> \<le> 2 ^ 1023" .
  qed
  show ?thesis
    by (simp add: R2_prefactor_def c_alpha_pos_def ck_mul_def ck_div_def example_disk_def a)
qed

lemma example_R2_kernel:
  "R2_kernel (example_disk (1/3) (250000/723) True) 1 0 0.007341 \<noteq> 0"
proof -
  have "0 < (9 + (0.007341::real)\<^sup>2) powr (- 3 / 2)"
    unfolding powr_gt_zero by (simp add: power2_eq_square)
  then show ?thesis
    by (simp add: R2_kernel_def pot_kernel_def example_disk_def)
qed

lemma example_sums:
  "paired_R2deriv_sum (example_disk (1/3) (250000/723) True) 1 0
     - spec_R2deriv_sum (example_disk (1/3) (250000/723) True) 1 0
   = 0.00004526 * R2_kernel (example_disk (1/3) (250000/723) True) 1 0 0.007341 / 0.007341"
proof -
  have s: "singular (example_disk (1/3) (250000/723) True) 1 x
             \<longleftrightarrow> (0.002892::real)\<^sup>2 - x\<^sup>2 = 0" for x
    by (simp add: singular_def example_disk_def)
  have x: "de_j0_xs (example_disk (1/3) (250000/723) True) = [0.002892, 0.01524]"
    "de_j0_weights (example_disk (1/3) (250000/723) True) = [Fin 0.007421, Fin 0.01727]"
    "de_j1_xs (example_disk (1/3) (250000/723) True) = [0.007341, 0.02461]"
    "de_j1_weights (example_disk (1/3) (250000/723) True) = [Fin 0.00004526, Fin 0.0002732]"
    by (simp_all add: example_disk_def)
  show ?thesis
    unfolding paired_R2deriv_sum_def spec_R2deriv_sum_def x
    by (simp add: s power2_eq_square)
qed

section \<open>The far-field cutoff of the legacy strategy\<close>

text \<open>\<open>_Rforce\<close>, \<open>_zforce\<close>, \<open>_R2deriv\<close> and \<open>_z2deriv\<close> hand every float query with
  \<open>R > 16 hr\<close> or \<open>R > 6\<close> to the fallback.\<close>

lemma legacy_far_field:
  assumes "\<not> de s" "R > 16 * hr s \<or> R > 6"
  shows "Rforce sp s (PyFloats R z) = Inr (Float64 (kp_Rforce (kp s) R z))"
    "zforce sp s (PyFloats R z) = Inr (Float64 (kp_zforce (kp s) R z))"
    "R2deriv sp s (PyFloats R z) = Inr (Float64 (kp_R2deriv (kp s) R z))"
    "z2deriv sp s (PyFloats R z) = Inr (Float64 (kp_z2deriv (kp s) R z))"
  using assms
  by (auto simp: Rforce_def zforce_def R2deriv_def z2deriv_def pointwise_float bnd_def
      Rforce_legacy1_def zforce_legacy1_def R2deriv_legacy1_def z2deriv_legacy1_def)

text \<open>
  Claim C2 says that under the legacy strategy every quantity at a scalar query with
  \<open>R > 16 hr\<close> or \<open>R > 6\<close> is the fallback's value. \<open>_evaluate\<close> and \<open>_Rzderiv\<close> test
  \<open>R > 6\<close> only. On the example disk with \<open>hr = 1/3\<close>, \<open>hz = 20\<close> at \<open>R = 5.5\<close>,
  \<open>z = 1\<close>, where \<open>R > 16 hr\<close>, both run the quadrature, which is empty there and gives
  zero, while the fallback's values are not zero; the vertical force at the same point
  is the fallback's.
\<close>

theorem legacy_cutoff_missed:
  "16 * hr (example_disk (1/3) 20 False) < 11/2 \<and>
   evaluate example_special (example_disk (1/3) 20 False) (PyFloats (11/2) 1)
     = Inr (Float64 (Fin 0)) \<and>
   kp_call (kp (example_disk (1/3) 20 False)) (11/2) 1 \<noteq> Fin 0 \<and>
   Rzderiv example_special (example_disk (1/3) 20 False) (PyFloats (11/2) 1)
     = Inr (Float64 (Fin 0)) \<and>
   kp_Rzderiv (kp (example_disk (1/3) 20 False)) (11/2) 1 \<noteq> Fin 0 \<and>
   zforce example_special (example_disk (1/3) 20 False) (PyFloats (11/2) 1)
     = Inr (Float64 (kp_zforce (kp (example_disk (1/3) 20 False)) (11/2) 1))"
proof -
  let ?s = "example_disk (1/3) 20 False"
  have h: "16 * hr ?s < 11/2" by (simp add: example_disk_def)
  have e: "evaluate example_special ?s (PyFloats (11/2) 1) = Inr (Float64 (Fin 0))"
    by (simp add: evaluate_def pointwise_def evaluate_legacy1_def shaped_def bnd_def
        gl_sum_def maxzeroIndx_def argmin_def gl_ks_def gl_weights_def R4max_def
        weighted_sum_def bop_def broadcast_def example_disk_def power2_eq_square)
  have r: "Rzderiv example_special ?s (PyFloats (11/2) 1) = Inr (Float64 (Fin 0))"
    by (simp add: Rzderiv_def pointwise_def Rzderiv_legacy1_def shaped_def bnd_def
        gl_sum_def maxzeroIndx_def argmin_def gl_ks_def gl_weights_def R4max_def
        weighted_sum_def bop_def broadcast_def example_disk_def power2_eq_square)
  have k: "kp_call (kp ?s) (11/2) 1 \<noteq> Fin 0" "kp_Rzderiv (kp ?s) (11/2) 1 \<noteq> Fin 0"
    by (simp_all add: example_disk_def KeplerPotential_def power2_eq_square)
  have z: "zforce example_special ?s (PyFloats (11/2) 1)
             = Inr (Float64 (kp_zforce (kp ?s) (11/2) 1))"
    by (simp add: zforce_def pointwise_def zforce_legacy1_def shaped_def bnd_def
        example_disk_def)
  from h e r k z show ?thesis by simp
qed

section \<open>A quadrature node on the singularity\<close>

text \<open>The DE branches add up with \<open>nansum\<close>: a NaN term adds nothing.\<close>

lemma nansum_skips_NaN: "nansum (NaN # vs) = nansum vs" "np_sum (NaN # vs) = NaN"
  by (simp_all add: plus_fl_def)

text \<open>
  Claim C3 says that under either strategy a term that is not finite, at a node on the
  singularity \<open>k = beta\<close>, adds zero to the sum, so that the result is the sum of the
  other terms. The legacy branches add up with \<open>numpy.sum\<close>. On the example disk with
  \<open>hz = 400/481\<close> the first Gauss--Legendre node \<open>1.2025\<close> is \<open>beta\<close>, and the legacy
  potential at \<open>R = 1\<close>, \<open>z = 0\<close> is NaN.
\<close>

theorem legacy_sum_keeps_nan:
  "evaluate example_special (example_disk (1/3) (400/481) False) (PyFloats 1 0)
     = Inr (Float64 NaN)"
  by (simp add: evaluate_def pointwise_def evaluate_legacy1_def shaped_def bnd_def
      gl_sum_def maxzeroIndx_def argmin_def gl_ks_def gl_weights_def R4max_def item_def
      weighted_sum_def bop_def broadcast_def example_disk_def example_special_def
      evaluate_evalInt_def power2_eq_square inf_of_sign_def)

section \<open>Arrays of radii\<close>

text \<open>
  Claim C9 says that every quantity under both strategies takes floats or arrays and
  returns a result of the shape of the input, so that the strategy does not change the
  shapes accepted. The DE branch of \<open>_Rforce\<close> sets the array \<open>R\<close> against the node
  table without a new axis: an array of three radii against a table of another length
  raises \<open>ValueError\<close>, where the legacy branch returns the three values.
\<close>

theorem de_Rforce_rejects_array:
  "Rforce example_special (example_disk (1/3) (1/16) True) (ArrayFloat [7, 8, 9] 0)
     = Inl ValueError \<and>
   Rforce example_special (example_disk (1/3) (1/16) False) (ArrayFloat [7, 8, 9] 0)
     = Inr (Ndarray [kp_Rforce (kp (example_disk (1/3) (1/16) False)) 7 0,
                     kp_Rforce (kp (example_disk (1/3) (1/16) False)) 8 0,
                     kp_Rforce (kp (example_disk (1/3) (1/16) False)) 9 0])"
proof -
  have d: "Rforce example_special (example_disk (1/3) (1/16) True) (ArrayFloat [7, 8, 9] 0)
             = Inl ValueError"
    by (simp add: Rforce_def Rforce_de_def prefactor_def weighted_nansum_def fun_on_def
        broadcast_def bnd_def example_disk_def)
  have l: "Rforce example_special (example_disk (1/3) (1/16) False) (ArrayFloat [7, 8, 9] 0)
     = Inr (Ndarray [kp_Rforce (kp (example_disk (1/3) (1/16) False)) 7 0,
                     kp_Rforce (kp (example_disk (1/3) (1/16) False)) 8 0,
                     kp_Rforce (kp (example_disk (1/3) (1/16) False)) 9 0])"
    by (simp add: Rforce_def pointwise_def Rforce_legacy1_def shaped_def bnd_def
        example_disk_def)
  from d l show ?thesis by simp
qed

end
